theory Spec2Isabelle
  imports Complex_Main
begin

section \<open>Data model of the pixel analyzer (src/lib/simplifiedPixelAnalyzer.js)\<close>

text \<open>
  A colour channel read from the raw RGBA buffer. Reading a Node Buffer past its end
  yields \<^verbatim>\<open>undefined\<close>; this is the value \<open>None\<close>.
\<close>

type_synonym chan = "nat option"

text \<open>Bounding box \<^verbatim>\<open>{x, y, width, height}\<close>; all coordinates are whole pixels.\<close>

record bounds =
  b_x :: int
  b_y :: int
  b_width :: int
  b_height :: int

text \<open>
  A region object as pushed by \<^verbatim>\<open>findMajorRegions\<close> or built by
  \<^verbatim>\<open>mergeRegions\<close>. The colour classification is the string returned by
  \<^verbatim>\<open>rgbToColorName\<close>.
\<close>

record region =
  color :: string
  hex :: string
  rgb :: "chan \<times> chan \<times> chan"
  bounds :: bounds
  area :: int
  pixelCount :: int

subsection \<open>Number formatting used by template literals\<close>

fun showNat :: "nat \<Rightarrow> string" where
  "showNat n = (if n < 10 then [''0123456789'' ! n]
                else showNat (n div 10) @ [''0123456789'' ! (n mod 10)])"

declare showNat.simps [simp del]

definition showInt :: "int \<Rightarrow> string" where
  "showInt i = (if i < 0 then CHR ''-'' # showNat (nat (- i)) else showNat (nat i))"

definition showChan :: "chan \<Rightarrow> string" where
  "showChan c = (case c of None \<Rightarrow> ''undefined'' | Some v \<Rightarrow> showNat v)"

fun showHex :: "nat \<Rightarrow> string" where
  "showHex n = (if n < 16 then [''0123456789ABCDEF'' ! n]
                else showHex (n div 16) @ [''0123456789ABCDEF'' ! (n mod 16)])"

declare showHex.simps [simp del]

text \<open>
  \<^verbatim>\<open>toHex\<close> inside \<^verbatim>\<open>rgbToHex\<close>: \<^verbatim>\<open>Math.round(c).toString(16)\<close>,
  padded to two digits. The enclosing template is upper-cased as a whole, so the digits
  are produced in upper case here; an undefined channel prints as NaN, upper-cased.
\<close>

definition toHex :: "chan \<Rightarrow> string" where
  "toHex c = (case c of None \<Rightarrow> ''NAN''
              | Some v \<Rightarrow> (let h = showHex v in if length h = 1 then CHR ''0'' # h else h))"

definition rgbToHex :: "chan \<Rightarrow> chan \<Rightarrow> chan \<Rightarrow> string" where
  "rgbToHex r g b = CHR ''#'' # toHex r @ toHex g @ toHex b"

subsection \<open>Colour classification\<close>

text \<open>
  The table of \<^verbatim>\<open>rgbToColorName\<close>: name, reference colour and threshold, in
  source order.
\<close>

definition colors :: "(string \<times> int \<times> int \<times> int \<times> int) list" where
  "colors =
    [(''black'', 0, 0, 0, 80),
     (''white'', 255, 255, 255, 80),
     (''red'', 255, 0, 0, 100),
     (''red'', 220, 20, 20, 60),
     (''red'', 200, 0, 0, 60),
     (''red'', 180, 0, 0, 50),
     (''yellow'', 255, 255, 0, 80),
     (''yellow'', 240, 240, 0, 60),
     (''yellow'', 255, 200, 0, 60),
     (''blue'', 0, 0, 255, 80),
     (''blue'', 0, 100, 200, 60),
     (''gray'', 128, 128, 128, 80),
     (''gray'', 160, 160, 160, 40),
     (''gray'', 100, 100, 100, 40)]"

text \<open>
  Squared Euclidean distance of two colours. The source compares
  \<^verbatim>\<open>Math.sqrt(d2) < threshold\<close> with a whole-number threshold; for whole
  numbers this is \<open>d2 < threshold\<^sup>2\<close>, which is what the model evaluates.
\<close>

definition dist2 :: "int \<Rightarrow> int \<Rightarrow> int \<Rightarrow> int \<Rightarrow> int \<Rightarrow> int \<Rightarrow> int" where
  "dist2 r g b r' g' b' = (r - r')\<^sup>2 + (g - g')\<^sup>2 + (b - b')\<^sup>2"

fun firstKnownColor :: "(string \<times> int \<times> int \<times> int \<times> int) list \<Rightarrow> int \<Rightarrow> int \<Rightarrow> int
    \<Rightarrow> string option" where
  "firstKnownColor [] r g b = None"
| "firstKnownColor ((name, cr, cg, cb, threshold) # rest) r g b =
     (if dist2 r g b cr cg cb < threshold\<^sup>2 then Some name else firstKnownColor rest r g b)"

definition rgbFallbackName :: "chan \<Rightarrow> chan \<Rightarrow> chan \<Rightarrow> string" where
  "rgbFallbackName r g b = ''rgb('' @ showChan r @ '','' @ showChan g @ '','' @ showChan b @ '')''"

text \<open>
  \<^verbatim>\<open>rgbToColorName\<close> on three defined channels: the table first, then the heuristic
  rules in source order, then the literal \<^verbatim>\<open>rgb(r,g,b)\<close>.
\<close>

definition colorNameOf :: "int \<Rightarrow> int \<Rightarrow> int \<Rightarrow> string" where
  "colorNameOf r g b =
    (case firstKnownColor colors r g b of
       Some name \<Rightarrow> name
     | None \<Rightarrow>
        if r > 150 \<and> r > g * 2 \<and> r > b * 2 then ''red''
        else if r > 200 \<and> g > 200 \<and> b < 100 then ''yellow''
        else if \<bar>r - g\<bar> < 30 \<and> \<bar>g - b\<bar> < 30 \<and> r > 50 \<and> r < 200 then ''gray''
        else if r < 50 \<and> g < 50 \<and> b < 50 then ''black''
        else if r > 180 \<and> g > 180 \<and> b > 180 \<and> \<bar>r - g\<bar> < 30 \<and> \<bar>g - b\<bar> < 30 \<and> \<bar>r - b\<bar> < 30
          then ''white''
        else rgbFallbackName (Some (nat r)) (Some (nat g)) (Some (nat b)))"

text \<open>
  With an undefined channel every distance is NaN and every comparison of the heuristic
  rules involves NaN in one conjunct (each rule reads all three channels), so all tests
  are false and the literal is returned.
\<close>

definition rgbToColorName :: "chan \<Rightarrow> chan \<Rightarrow> chan \<Rightarrow> string" where
  "rgbToColorName r g b =
    (case (r, g, b) of
       (Some rv, Some gv, Some bv) \<Rightarrow> colorNameOf (int rv) (int gv) (int bv)
     | _ \<Rightarrow> rgbFallbackName r g b)"

subsection \<open>Aspect ratio and JavaScript number comparisons\<close>

text \<open>
  \<^verbatim>\<open>Math.max(w, h) / Math.min(w, h)\<close> is a JavaScript number: a quotient, or
  Infinity when only the smaller side is 0, or NaN for 0/0. Every comparison with NaN
  is false.
\<close>

datatype jsnum = Finite rat | PosInfinity | NaN

definition aspectRatioOf :: "bounds \<Rightarrow> jsnum" where
  "aspectRatioOf b =
    (let hi = max (b_width b) (b_height b); lo = min (b_width b) (b_height b)
     in if lo = 0 then (if hi = 0 then NaN else PosInfinity)
        else Finite (of_int hi / of_int lo))"

fun gtNum :: "jsnum \<Rightarrow> rat \<Rightarrow> bool" where
  "gtNum (Finite q) k = (q > k)"
| "gtNum PosInfinity k = True"
| "gtNum NaN k = False"

subsection \<open>Consolidation of raw regions\<close>

definition regionsOverlap :: "bounds \<Rightarrow> bounds \<Rightarrow> bool" where
  "regionsOverlap bounds1 bounds2 =
    (let margin = 3 in
     \<not> (b_x bounds1 + b_width bounds1 + margin < b_x bounds2 \<or>
        b_x bounds2 + b_width bounds2 + margin < b_x bounds1 \<or>
        b_y bounds1 + b_height bounds1 + margin < b_y bounds2 \<or>
        b_y bounds2 + b_height bounds2 + margin < b_y bounds1))"

text \<open>The constant of \<^verbatim>\<open>shouldMergeRegions\<close>, commented "Target image size".\<close>

definition totalImageArea :: int where
  "totalImageArea = 261 * 373"

definition shouldMergeRegions :: "region \<Rightarrow> region \<Rightarrow> bool" where
  "shouldMergeRegions region1 region2 =
    (if \<not> regionsOverlap (bounds region1) (bounds region2) then False
     else
       let area1 = area region1; area2 = area region2 in
       if ((of_int area1 :: rat) > of_int totalImageArea * (5 / 10) \<and>
           (of_int area2 :: rat) < of_int totalImageArea * (1 / 10)) \<or>
          ((of_int area2 :: rat) > of_int totalImageArea * (5 / 10) \<and>
           (of_int area1 :: rat) < of_int totalImageArea * (1 / 10))
       then False
       else
         let aspectRatio1 = aspectRatioOf (bounds region1);
             aspectRatio2 = aspectRatioOf (bounds region2) in
         if gtNum aspectRatio1 8 \<or> gtNum aspectRatio2 8 then
           let isHorizontalLine1 = (b_width (bounds region1) > b_height (bounds region1));
               isHorizontalLine2 = (b_width (bounds region2) > b_height (bounds region2)) in
           if isHorizontalLine1 \<and> isHorizontalLine2
             then \<bar>b_y (bounds region1) - b_y (bounds region2)\<bar> \<le> 5
           else if \<not> isHorizontalLine1 \<and> \<not> isHorizontalLine2
             then \<bar>b_x (bounds region1) - b_x (bounds region2)\<bar> \<le> 5
           else False
         else True)"

text \<open>
  \<^verbatim>\<open>mergeRegions(regions)\<close> is only called with the list \<^verbatim>\<open>overlapping\<close>,
  which starts with \<^verbatim>\<open>mainRegion\<close>; the non-empty list is passed as its first
  element and the rest. \<^verbatim>\<open>Math.min(...)\<close> and \<^verbatim>\<open>Math.max(...)\<close> over it are
  folds starting from the first element.
\<close>

definition mergeRegions :: "region \<Rightarrow> region list \<Rightarrow> region" where
  "mergeRegions first rest =
    (let allBounds = map bounds (first # rest);
         minX = fold min (map b_x (tl allBounds)) (b_x (bounds first));
         minY = fold min (map b_y (tl allBounds)) (b_y (bounds first));
         maxX = fold max (map (\<lambda>b. b_x b + b_width b) (tl allBounds))
                  (b_x (bounds first) + b_width (bounds first));
         maxY = fold max (map (\<lambda>b. b_y b + b_height b) (tl allBounds))
                  (b_y (bounds first) + b_height (bounds first))
     in \<lparr> color = color first,
          hex = hex first,
          rgb = rgb first,
          bounds = \<lparr> b_x = minX, b_y = minY, b_width = maxX - minX, b_height = maxY - minY \<rparr>,
          area = (maxX - minX) * (maxY - minY),
          pixelCount = fold (\<lambda>r s. s + pixelCount r) (first # rest) 0 \<rparr>)"

text \<open>
  The inner loop of \<^verbatim>\<open>consolidateOverlappingRegions\<close> over \<open>j = i + 1 ..\<close>:
  it returns the regions pushed onto \<^verbatim>\<open>overlapping\<close> after \<^verbatim>\<open>mainRegion\<close>
  and the updated set \<^verbatim>\<open>used\<close>.
\<close>

definition collectOverlapping :: "region list \<Rightarrow> nat \<Rightarrow> nat set \<Rightarrow> region list \<times> nat set" where
  "collectOverlapping regions i used =
    fold (\<lambda>j (others, used).
            if j \<in> used then (others, used)
            else if color (regions ! i) = color (regions ! j) \<and>
                    shouldMergeRegions (regions ! i) (regions ! j)
              then (others @ [regions ! j], insert j used)
              else (others, used))
         [i + 1 ..< length regions] ([], insert i used)"

text \<open>The outer loop, from index \<open>i\<close> on; all indices read are below the length.\<close>

function consolidateFrom :: "region list \<Rightarrow> nat \<Rightarrow> nat set \<Rightarrow> region list \<Rightarrow> region list" where
  "consolidateFrom regions i used consolidated =
    (if i < length regions then
       if i \<in> used then consolidateFrom regions (i + 1) used consolidated
       else
         let mainRegion = regions ! i;
             (others, used') = collectOverlapping regions i used
         in if length (mainRegion # others) > 1
            then consolidateFrom regions (i + 1) used' (consolidated @ [mergeRegions mainRegion others])
            else consolidateFrom regions (i + 1) used' (consolidated @ [mainRegion])
     else consolidated)"
  by pat_completeness auto
termination
  by (relation "measure (\<lambda>(regions, i, used, consolidated). length regions - i)") auto

declare consolidateFrom.simps [simp del]

definition consolidateOverlappingRegions :: "region list \<Rightarrow> region list" where
  "consolidateOverlappingRegions regions = consolidateFrom regions 0 {} []"

subsection \<open>Significance filter and ordering\<close>

text \<open>
  \<^verbatim>\<open>maxArea * 0.02\<close> is evaluated as the exact fraction; for whole-number areas
  the comparison \<^verbatim>\<open>region.area >= minSignificantArea\<close> has the same outcome.
\<close>

definition filterSignificantRegions :: "region list \<Rightarrow> region list" where
  "filterSignificantRegions regions =
    (case regions of
       [] \<Rightarrow> regions
     | r0 # rs \<Rightarrow>
        let maxArea = fold max (map area rs) (area r0);
            minSignificantArea = (of_int maxArea :: rat) * (2 / 100)
        in filter (\<lambda>region.
             if color region = ''red'' then True
             else let aspectRatio = aspectRatioOf (bounds region) in
               if gtNum aspectRatio 15 \<and> area region > 50 then True
               else if gtNum aspectRatio 8 \<and> area region > 200 then True
               else if color region = ''black'' \<and>
                       (b_width (bounds region) \<le> 5 \<or> b_height (bounds region) \<le> 5) \<and>
                       area region > 100 then True
               else (of_int (area region) :: rat) \<ge> minSignificantArea) regions)"

text \<open>
  \<^verbatim>\<open>sort((a, b) => b.area - a.area)\<close>: a stable sort, largest area first.
\<close>

definition sortByAreaDesc :: "region list \<Rightarrow> region list" where
  "sortByAreaDesc regions = sort_key (\<lambda>r. - area r) regions"

section \<open>Region extraction\<close>

text \<open>Constants set by the constructor and by \<^verbatim>\<open>findMajorRegions\<close>.\<close>

definition colorTolerance :: int where
  "colorTolerance = 50"

definition minRegionSize :: int where
  "minRegionSize = 1000"

definition samplingStep :: int where
  "samplingStep = 2"

text \<open>\<^verbatim>\<open>data[index]\<close> on the raw buffer.\<close>

definition byteAt :: "nat list \<Rightarrow> int \<Rightarrow> chan" where
  "byteAt data index =
     (if 0 \<le> index \<and> nat index < length data then Some (data ! nat index) else None)"

text \<open>\<^verbatim>\<open>a < 128\<close>; false when \<^verbatim>\<open>a\<close> is undefined.\<close>

definition alphaBelow128 :: "chan \<Rightarrow> bool" where
  "alphaBelow128 a = (case a of None \<Rightarrow> False | Some v \<Rightarrow> v < 128)"

text \<open>
  \<^verbatim>\<open>colorDistance > this.colorTolerance\<close>, where \<^verbatim>\<open>colorDistance\<close> is the
  square root of the squared distance; NaN, hence false, when a channel is undefined.
\<close>

definition colorTooFar :: "chan \<Rightarrow> chan \<Rightarrow> chan \<Rightarrow> chan \<Rightarrow> chan \<Rightarrow> chan \<Rightarrow> bool" where
  "colorTooFar r g b targetR targetG targetB =
    (case (r, g, b, targetR, targetG, targetB) of
       (Some rv, Some gv, Some bv, Some tr, Some tg, Some tb) \<Rightarrow>
          dist2 (int rv) (int gv) (int bv) (int tr) (int tg) (int tb) > colorTolerance\<^sup>2
     | _ \<Rightarrow> False)"

text \<open>
  The \<^verbatim>\<open>while (queue.length > 0)\<close> loop of \<^verbatim>\<open>floodFillRegion\<close>. Pixel keys
  \<^verbatim>\<open>`${x},${y}`\<close> are the coordinate pairs. The set \<^verbatim>\<open>visited\<close> is shared with
  the caller, so it is returned together with the collected pixels.
\<close>

function floodFillLoop ::
  "nat list \<Rightarrow> int \<Rightarrow> int \<Rightarrow> chan \<Rightarrow> chan \<Rightarrow> chan \<Rightarrow> int \<Rightarrow>
   (int \<times> int) list \<Rightarrow> (int \<times> int) set \<Rightarrow> (int \<times> int) set \<Rightarrow> (int \<times> int) list \<Rightarrow>
   (int \<times> int) list \<times> (int \<times> int) set" where
  "floodFillLoop data width height targetR targetG targetB step [] regionVisited visited pixels =
     (pixels, visited)"
| "floodFillLoop data width height targetR targetG targetB step ((x, y) # queue)
       regionVisited visited pixels =
     (if (x, y) \<in> regionVisited \<or> (x, y) \<in> visited then
        floodFillLoop data width height targetR targetG targetB step queue regionVisited visited pixels
      else if x < 0 \<or> x \<ge> width \<or> y < 0 \<or> y \<ge> height then
        floodFillLoop data width height targetR targetG targetB step queue regionVisited visited pixels
      else if alphaBelow128 (byteAt data ((y * width + x) * 4 + 3)) then
        floodFillLoop data width height targetR targetG targetB step queue regionVisited visited pixels
      else if colorTooFar (byteAt data ((y * width + x) * 4))
                (byteAt data ((y * width + x) * 4 + 1))
                (byteAt data ((y * width + x) * 4 + 2)) targetR targetG targetB then
        floodFillLoop data width height targetR targetG targetB step queue regionVisited visited pixels
      else
        floodFillLoop data width height targetR targetG targetB step
          (queue @ [(x + min step 2, y), (x - min step 2, y), (x, y + min step 2), (x, y - min step 2)])
          (insert (x, y) regionVisited) (insert (x, y) visited) (pixels @ [(x, y)]))"
  by pat_completeness auto
termination
proof (relation "measure (\<lambda>(data, width, height, targetR, targetG, targetB, step, queue,
          regionVisited, visited, pixels).
          4 * card (({0..<width} \<times> {0..<height}) - visited) + length queue)", goal_cases)
  case (6 data width height targetR targetG targetB step x y queue regionVisited visited pixels)
  let ?box = "{0..<width} \<times> {0..<height}"
  have "finite (?box - visited)" by simp
  moreover from 6 have "(x, y) \<in> ?box - visited" by auto
  ultimately have "card (?box - visited - {(x, y)}) < card (?box - visited)"
    by (rule card_Diff1_less)
  moreover have "?box - insert (x, y) visited = ?box - visited - {(x, y)}" by auto
  ultimately show ?case by simp
qed auto

definition floodFillRegion ::
  "nat list \<Rightarrow> int \<Rightarrow> int \<Rightarrow> int \<Rightarrow> int \<Rightarrow> chan \<Rightarrow> chan \<Rightarrow> chan \<Rightarrow> (int \<times> int) set \<Rightarrow> int \<Rightarrow>
   (int \<times> int) list option \<times> (int \<times> int) set" where
  "floodFillRegion data width height startX startY targetR targetG targetB visited step =
    (let (pixels, visited') =
           floodFillLoop data width height targetR targetG targetB step [(startX, startY)] {} visited []
     in (if length pixels > 0 then Some pixels else None, visited'))"

text \<open>
  \<^verbatim>\<open>calculateBounds(samples)\<close> is called on at least five samples; the non-empty list
  is passed as its first sample and the rest.
\<close>

definition calculateBounds :: "int \<times> int \<Rightarrow> (int \<times> int) list \<Rightarrow> bounds" where
  "calculateBounds s samples =
    (let xs = map fst samples; ys = map snd samples;
         minX = fold min xs (fst s); maxX = fold max xs (fst s);
         minY = fold min ys (snd s); maxY = fold max ys (snd s)
     in \<lparr> b_x = minX, b_y = minY, b_width = maxX - minX, b_height = maxY - minY \<rparr>)"

text \<open>The values of a loop \<^verbatim>\<open>for (v = start; v < limit; v += step)\<close> with step 2.\<close>

function coordsFrom :: "int \<Rightarrow> int \<Rightarrow> int list" where
  "coordsFrom v limit = (if v < limit then v # coordsFrom (v + samplingStep) limit else [])"
  by pat_completeness auto
termination
  by (relation "measure (\<lambda>(v, limit). nat (limit - v))") (auto simp: samplingStep_def)

declare coordsFrom.simps [simp del]

text \<open>
  The body of the double loop of \<^verbatim>\<open>findMajorRegions\<close> at one sampled pixel; the
  state is the set \<^verbatim>\<open>visited\<close> and the list \<^verbatim>\<open>regions\<close>.
\<close>

definition scanPixel ::
  "nat list \<Rightarrow> int \<Rightarrow> int \<Rightarrow> int \<Rightarrow> int \<Rightarrow> (int \<times> int) set \<times> region list \<Rightarrow>
   (int \<times> int) set \<times> region list" where
  "scanPixel data width height y x state =
    (let (visited, regions) = state in
     if (x, y) \<in> visited then (visited, regions)
     else
       let index = (y * width + x) * 4;
           r = byteAt data index; g = byteAt data (index + 1);
           b = byteAt data (index + 2); a = byteAt data (index + 3)
       in if alphaBelow128 a then (visited, regions)
          else
            let (region, visited') =
                  floodFillRegion data width height x y r g b visited samplingStep
            in case region of
                 None \<Rightarrow> (visited', regions)
               | Some [] \<Rightarrow> (visited', regions)
               | Some (p # ps) \<Rightarrow>
                   if length (p # ps) \<ge> 5 then
                     let bounds = calculateBounds p ps;
                         area = b_width bounds * b_height bounds;
                         color = rgbToColorName r g b;
                         aspectRatio = aspectRatioOf bounds;
                         minAreaThreshold =
                           (if gtNum aspectRatio 20 then 50
                            else if gtNum aspectRatio 8 then 200
                            else if color = ''red'' then 150
                            else if color = ''black'' \<and> (b_width bounds \<le> 5 \<or> b_height bounds \<le> 5)
                              then 100
                            else minRegionSize)
                     in if area \<ge> minAreaThreshold then
                          (visited', regions @
                             [\<lparr> color = color, hex = rgbToHex r g b, rgb = (r, g, b),
                                bounds = bounds, area = area,
                                pixelCount = int (length (p # ps)) \<rparr>])
                        else (visited', regions)
                   else (visited', regions))"

definition scanImage :: "nat list \<Rightarrow> int \<Rightarrow> int \<Rightarrow> (int \<times> int) set \<times> region list" where
  "scanImage data width height =
     fold (\<lambda>y state. fold (scanPixel data width height y) (coordsFrom 0 width) state)
          (coordsFrom 0 height) ({}, [])"

definition findMajorRegions :: "nat list \<Rightarrow> int \<Rightarrow> int \<Rightarrow> region list" where
  "findMajorRegions data width height =
    (let (visited, regions) = scanImage data width height;
         consolidatedRegions = consolidateOverlappingRegions regions;
         filteredRegions = filterSignificantRegions consolidatedRegions
     in sortByAreaDesc filteredRegions)"

section \<open>Scoring and instruction generation\<close>

definition findBestColorMatch :: "region \<Rightarrow> region list \<Rightarrow> region option" where
  "findBestColorMatch targetRegion generatedRegions =
     find (\<lambda>region. color region = color targetRegion) generatedRegions"

definition positionDiffOf :: "region \<Rightarrow> region \<Rightarrow> int" where
  "positionDiffOf targetRegion match =
     \<bar>b_x (bounds targetRegion) - b_x (bounds match)\<bar> +
     \<bar>b_y (bounds targetRegion) - b_y (bounds match)\<bar>"

definition sizeDiffOf :: "region \<Rightarrow> region \<Rightarrow> int" where
  "sizeDiffOf targetRegion match =
     \<bar>b_width (bounds targetRegion) - b_width (bounds match)\<bar> +
     \<bar>b_height (bounds targetRegion) - b_height (bounds match)\<bar>"

text \<open>One pass of the loop body of \<^verbatim>\<open>calculateSimpleScore\<close> for one target region.\<close>

definition scoreStep :: "region list \<Rightarrow> region \<Rightarrow> int \<Rightarrow> int" where
  "scoreStep generatedRegions targetRegion score =
    (case findBestColorMatch targetRegion generatedRegions of
       None \<Rightarrow> score - 25
     | Some match \<Rightarrow>
        let positionDiff = positionDiffOf targetRegion match;
            sizeDiff = sizeDiffOf targetRegion match;
            score1 = (if positionDiff > 50 then score - 5
                      else if positionDiff > 20 then score - 2 else score)
        in (if sizeDiff > 50 then score1 - 5
            else if sizeDiff > 20 then score1 - 2 else score1))"

text \<open>
  The score is a whole number throughout, so \<^verbatim>\<open>Math.round\<close> leaves it unchanged.
\<close>

definition calculateSimpleScore :: "region list \<Rightarrow> region list \<Rightarrow> int" where
  "calculateSimpleScore targetRegions generatedRegions =
    (let mainTargetRegions = take 4 targetRegions
     in max 0 (fold (scoreStep generatedRegions) mainTargetRegions 100))"

text \<open>One pass of the loop body of \<^verbatim>\<open>createSimpleInstructions\<close>.\<close>

definition instructionStep :: "region list \<Rightarrow> region \<Rightarrow> string list \<Rightarrow> string list" where
  "instructionStep generatedRegions targetRegion instructions =
    (let tb = bounds targetRegion;
         isLine = gtNum (aspectRatioOf tb) 8;
         shapeType = (if isLine then ''line'' else ''rectangle'')
     in case findBestColorMatch targetRegion generatedRegions of
          None \<Rightarrow>
            if isLine then
              instructions @
              [''Add '' @ hex targetRegion @ '' '' @ shapeType @ '': '' @
               (if b_width tb > b_height tb then ''horizontal'' else ''vertical'') @
               '' at ('' @ showInt (b_x tb) @ '', '' @ showInt (b_y tb) @ ''), size '' @
               showInt (b_width tb) @ ''x'' @ showInt (b_height tb)]
            else
              instructions @
              [''Add '' @ hex targetRegion @ '' '' @ shapeType @ '': rect('' @
               showInt (b_x tb) @ '', '' @ showInt (b_y tb) @ '', '' @
               showInt (b_width tb) @ '', '' @ showInt (b_height tb) @ '')'']
        | Some matchingRegion \<Rightarrow>
            let positionDiff = positionDiffOf targetRegion matchingRegion;
                sizeDiff = sizeDiffOf targetRegion matchingRegion
            in if positionDiff > 15 \<or> sizeDiff > 15 then
                 instructions @
                 [''Fix '' @ hex targetRegion @ '' '' @ shapeType @ '': move to ('' @
                  showInt (b_x tb) @ '', '' @ showInt (b_y tb) @ '') and resize to '' @
                  showInt (b_width tb) @ ''x'' @ showInt (b_height tb)]
               else instructions)"

definition createSimpleInstructions :: "region list \<Rightarrow> region list \<Rightarrow> string list" where
  "createSimpleInstructions targetRegions generatedRegions =
    (let mainTargetRegions = take 5 targetRegions
     in take 4 (fold (instructionStep generatedRegions) mainTargetRegions []))"

section \<open>External collaborators of the orchestrators\<close>

text \<open>A thrown JavaScript \<^verbatim>\<open>Error\<close> with its message.\<close>

datatype error = Error string

text \<open>The object returned by \<^verbatim>\<open>ErrorDetector.detectErrors\<close>.\<close>

record errorResult =
  hasErrors :: bool
  canvasExists :: bool
  errors :: "string list"

text \<open>
  The object returned by \<^verbatim>\<open>compareImagesAndImprove\<close>, which catches its own
  failures: success with the analysis text, or failure with the error message and an
  empty analysis.
\<close>

datatype visualAnalysis = AnalysisOk string | AnalysisFailed string

text \<open>A decoded raw RGBA image as \<^verbatim>\<open>sharp\<close> delivers it.\<close>

record image =
  img_data :: "nat list"
  img_width :: int
  img_height :: int

text \<open>
  The code generator, the browser and the file decoder are outside the program. Their
  answers are parameters of the model, indexed by the iteration and the fix attempt of
  the call and by the texts passed to them; a call that throws answers \<open>Inl\<close>.
  \<^verbatim>\<open>compareImages\<close> of the second evaluator extracts its score with the pattern
  \<^verbatim>\<open>[0-9](\.[0-9])?\<close> (or takes 0), so the score is a digit with at most one
  decimal; it is given here in tenths.
\<close>

record services =
  setupSession :: "error + unit"
  generateInitialCode :: "error + string"
  generateImprovedCode :: "string option \<Rightarrow> string option \<Rightarrow> int \<Rightarrow> error + string"
  detectErrors :: "int \<Rightarrow> int \<Rightarrow> string \<Rightarrow> error + errorResult"
  fixJavaScriptErrors :: "int \<Rightarrow> int \<Rightarrow> string \<Rightarrow> string list \<Rightarrow> error + string"
  captureSketch :: "int \<Rightarrow> string \<Rightarrow> error + unit"
  compareImagesAndImprove :: "int \<Rightarrow> string \<Rightarrow> visualAnalysis"
  compareImages :: "int \<Rightarrow> error + nat \<times> string"
  loadTargetImage :: "error + image"
  loadScreenshot :: "int \<Rightarrow> error + image"

section \<open>The session orchestrator (src/universalOrchestrator.js)\<close>

record config =
  cfg_maxIterations :: "int option"
  cfg_targetScore :: "int option"
  cfg_evaluationMode :: "string option"
  cfg_hasGeminiApiKey :: bool
  cfg_hasGroqApiKey :: bool

record orchestrator =
  maxIterations :: int
  targetScore :: int
  evaluationMode :: string
  hasGroqEvaluator :: bool
  maxFixAttempts :: int

text \<open>\<^verbatim>\<open>v || d\<close> on an optional number: 0 and undefined are falsy.\<close>

definition orDefault :: "int option \<Rightarrow> int \<Rightarrow> int" where
  "orDefault v d = (case v of None \<Rightarrow> d | Some n \<Rightarrow> if n = 0 then d else n)"

definition newOrchestrator :: "config \<Rightarrow> error + orchestrator" where
  "newOrchestrator cfg =
    (if \<not> cfg_hasGeminiApiKey cfg then Inl (Error ''Please set GEMINI_API_KEY in config or .env file'')
     else
       let mode = (case cfg_evaluationMode cfg of None \<Rightarrow> ''self''
                   | Some m \<Rightarrow> if m = [] then ''self'' else m)
       in Inr \<lparr> maxIterations = min (max (orDefault (cfg_maxIterations cfg) 5) 1) 7,
                targetScore = min (max (orDefault (cfg_targetScore cfg) 15) 1) 20,
                evaluationMode = mode,
                hasGroqEvaluator = (cfg_hasGroqApiKey cfg \<and> cfg_evaluationMode cfg = Some ''dual''),
                maxFixAttempts = 3 \<rparr>)"

text \<open>
  One recorded round: the files \<^verbatim>\<open>iterationN.html\<close>, \<^verbatim>\<open>iterationN.png\<close> and
  \<^verbatim>\<open>iterationN_evaluation.json\<close> of the session directory, which
  \<^verbatim>\<open>createSessionSummary\<close> collects into the list \<^verbatim>\<open>iterations\<close>.
\<close>

record iterationRecord =
  it_iteration :: int
  it_code :: string
  it_score :: int
  it_feedback :: string

text \<open>The local variables of \<^verbatim>\<open>runSession\<close> and the rounds recorded so far.\<close>

record sessionState =
  previousCode :: "string option"
  previousFeedback :: "string option"
  bestScore :: int
  bestIteration :: int
  bestCode :: "string option"
  currentIteration :: int
  iterations :: "iterationRecord list"

definition initialState :: sessionState where
  "initialState = \<lparr> previousCode = None, previousFeedback = None, bestScore = 0,
     bestIteration = 1, bestCode = None, currentIteration = 1, iterations = [] \<rparr>"

definition generateCode :: "services \<Rightarrow> string option \<Rightarrow> string option \<Rightarrow> int \<Rightarrow> error + string" where
  "generateCode sv prevCode prevFeedback iteration =
    (if iteration = 1 then generateInitialCode sv
     else generateImprovedCode sv prevCode prevFeedback iteration)"

text \<open>The loop of \<^verbatim>\<open>handleErrors\<close>, from fix attempt \<open>fixAttempt\<close> on.\<close>

function handleErrorsLoop :: "orchestrator \<Rightarrow> services \<Rightarrow> int \<Rightarrow> int \<Rightarrow> string \<Rightarrow> error + string" where
  "handleErrorsLoop orch sv iteration fixAttempt finalCode =
    (if fixAttempt \<le> maxFixAttempts orch then
       case detectErrors sv iteration fixAttempt finalCode of
         Inl e \<Rightarrow> Inl e
       | Inr errorResult \<Rightarrow>
           if \<not> hasErrors errorResult \<and> canvasExists errorResult then Inr finalCode
           else if fixAttempt = maxFixAttempts orch then Inr finalCode
           else
             (case fixJavaScriptErrors sv iteration fixAttempt finalCode (errors errorResult) of
                Inl e \<Rightarrow> Inl e
              | Inr fixed \<Rightarrow>
                  if fixed \<noteq> [] \<and> fixed \<noteq> finalCode
                  then handleErrorsLoop orch sv iteration (fixAttempt + 1) fixed
                  else Inr finalCode)
     else Inr finalCode)"
  by pat_completeness auto
termination
  by (relation "measure (\<lambda>(orch, sv, iteration, fixAttempt, finalCode).
        nat (maxFixAttempts orch + 1 - fixAttempt))") auto

declare handleErrorsLoop.simps [simp del]

definition handleErrors :: "orchestrator \<Rightarrow> services \<Rightarrow> string \<Rightarrow> int \<Rightarrow> error + string" where
  "handleErrors orch sv code iteration = handleErrorsLoop orch sv iteration 1 code"

text \<open>
  \<^verbatim>\<open>evaluateIteration\<close>: the score and the feedback of the evaluation object.
  \<^verbatim>\<open>Math.round(score * 2)\<close> of a score of \<open>t\<close> tenths is \<open>(2 t + 5) div 10\<close>.
\<close>

definition orNoFeedback :: "string \<Rightarrow> string" where
  "orNoFeedback s = (if s \<noteq> [] then s else ''No feedback available'')"

definition evaluateIteration :: "orchestrator \<Rightarrow> services \<Rightarrow> string \<Rightarrow> int \<Rightarrow> error + int \<times> string" where
  "evaluateIteration orch sv code iteration =
    (if evaluationMode orch = ''self'' then
       (case compareImagesAndImprove sv iteration code of
          AnalysisOk analysis \<Rightarrow> Inr (10, orNoFeedback analysis)
        | AnalysisFailed msg \<Rightarrow> Inr (0, orNoFeedback msg))
     else if evaluationMode orch = ''dual'' then
       (if \<not> hasGroqEvaluator orch then
          Inl (Error ''Groq evaluator not initialized. Please provide GROQ_API_KEY for dual mode.'')
        else
          (case compareImages sv iteration of
             Inl e \<Rightarrow> Inl e
           | Inr (tenths, description) \<Rightarrow> Inr ((2 * int tenths + 5) div 10, description)))
     else Inl (Error (''Unknown evaluation mode: '' @ evaluationMode orch)))"

text \<open>
  The body of the \<^verbatim>\<open>for\<close> loop of \<^verbatim>\<open>runSession\<close> for one iteration. The
  result is the new state and whether the loop was left by \<^verbatim>\<open>break\<close>; any
  exception leaves the loop and the function.
\<close>

definition runRound :: "orchestrator \<Rightarrow> services \<Rightarrow> int \<Rightarrow> sessionState \<Rightarrow> error + sessionState \<times> bool" where
  "runRound orch sv iteration st0 =
    (let st = st0\<lparr>currentIteration := iteration\<rparr> in
     case generateCode sv (previousCode st) (previousFeedback st) iteration of
       Inl e \<Rightarrow> Inl e
     | Inr code \<Rightarrow>
     (case handleErrors orch sv code iteration of
       Inl e \<Rightarrow> Inl e
     | Inr finalCode \<Rightarrow>
     (case captureSketch sv iteration finalCode of
       Inl e \<Rightarrow> Inl e
     | Inr u \<Rightarrow>
     (case evaluateIteration orch sv finalCode iteration of
       Inl e \<Rightarrow> Inl e
     | Inr (evScore, evFeedback) \<Rightarrow>
         let st1 = st\<lparr>iterations := iterations st @
                      [\<lparr> it_iteration = iteration, it_code = finalCode,
                         it_score = evScore, it_feedback = evFeedback \<rparr>]\<rparr>;
             st2 = (if evScore > bestScore st1
                    then st1\<lparr>bestScore := evScore, bestIteration := iteration,
                             bestCode := Some finalCode\<rparr>
                    else st1)
         in if evScore \<ge> targetScore orch then Inr (st2, True)
            else Inr (st2\<lparr>previousCode := Some finalCode,
                          previousFeedback := Some evFeedback\<rparr>, False)))))"

function sessionLoop :: "orchestrator \<Rightarrow> services \<Rightarrow> int \<Rightarrow> sessionState \<Rightarrow> error + sessionState" where
  "sessionLoop orch sv iteration st =
    (if iteration \<le> maxIterations orch then
       case runRound orch sv iteration st of
         Inl e \<Rightarrow> Inl e
       | Inr (st', stop) \<Rightarrow> if stop then Inr st' else sessionLoop orch sv (iteration + 1) st'
     else Inr st)"
  by pat_completeness auto
termination
  by (relation "measure (\<lambda>(orch, sv, iteration, st). nat (maxIterations orch + 1 - iteration))") auto

declare sessionLoop.simps [simp del]

text \<open>
  \<^verbatim>\<open>runSession\<close>: set-up, the loop, and the state from which the summary and the
  returned object are built. The \<^verbatim>\<open>catch\<close> clause logs and rethrows.
\<close>

definition runSession :: "orchestrator \<Rightarrow> services \<Rightarrow> error + sessionState" where
  "runSession orch sv =
    (case setupSession sv of
       Inl e \<Rightarrow> Inl e
     | Inr u \<Rightarrow> sessionLoop orch sv 1 initialState)"

definition targetReached :: "orchestrator \<Rightarrow> sessionState \<Rightarrow> bool" where
  "targetReached orch st = (bestScore st \<ge> targetScore orch)"

text \<open>
  The bookkeeping property of the best round: with no round recorded the variables hold
  their initial values; otherwise \<^verbatim>\<open>bestScore\<close> is the largest recorded score
  and \<^verbatim>\<open>bestIteration\<close> is the number of the first recorded round with that score.
\<close>

definition bestTracked :: "sessionState \<Rightarrow> bool" where
  "bestTracked st =
    (if iterations st = [] then bestScore st = 0 \<and> bestIteration st = 1
     else bestScore st = Max (set (map it_score (iterations st))) \<and>
          map_option it_iteration (find (\<lambda>r. it_score r = bestScore st) (iterations st))
            = Some (bestIteration st))"

section \<open>The pixel feedback loop (src/gemini_llama_orchestartor.js)\<close>

text \<open>Constants set by the constructor of \<^verbatim>\<open>PixelFeedbackLoopTest\<close>.\<close>

definition pixelMaxIterations :: int where
  "pixelMaxIterations = 10"

definition pixelTargetScore :: int where
  "pixelTargetScore = 95"

definition pixelMaxFixAttempts :: int where
  "pixelMaxFixAttempts = 5"

definition maxFallbacks :: int where
  "maxFallbacks = 3"

text \<open>
  One completed round: the final content of \<^verbatim>\<open>iterationN.html\<close> and the analysis
  written to \<^verbatim>\<open>iterationN_analysis.json\<close>.
\<close>

record pixelRound =
  pr_iteration :: int
  pr_code :: string
  pr_score :: int
  pr_instructions :: "string list"

record pixelState =
  px_previousCode :: "string option"
  px_pixelInstructions :: "string option"
  px_bestScore :: int
  px_bestIteration :: int
  px_currentIteration :: int
  px_lastWorkingCode :: "string option"
  px_fallbackCount :: int
  px_rounds :: "pixelRound list"

definition pixelInitialState :: pixelState where
  "pixelInitialState = \<lparr> px_previousCode = None, px_pixelInstructions = None, px_bestScore = 0,
     px_bestIteration = 1, px_currentIteration = 1, px_lastWorkingCode = None,
     px_fallbackCount = 0, px_rounds = [] \<rparr>"

text \<open>
  The fix loop of one round, from fix attempt \<open>fixAttempt\<close> on. It returns
  \<^verbatim>\<open>finalCode\<close>, \<^verbatim>\<open>errorFixed\<close> and \<^verbatim>\<open>lastWorkingCode\<close>.
\<close>

function pixelFixLoop ::
  "services \<Rightarrow> int \<Rightarrow> int \<Rightarrow> string \<Rightarrow> string option \<Rightarrow> error + string \<times> bool \<times> string option" where
  "pixelFixLoop sv iteration fixAttempt finalCode lastWorkingCode =
    (if fixAttempt \<le> pixelMaxFixAttempts then
       case detectErrors sv iteration fixAttempt finalCode of
         Inl e \<Rightarrow> Inl e
       | Inr errorResult \<Rightarrow>
           if \<not> hasErrors errorResult then Inr (finalCode, True, Some finalCode)
           else if fixAttempt = pixelMaxFixAttempts then Inr (finalCode, False, lastWorkingCode)
           else
             (case fixJavaScriptErrors sv iteration fixAttempt finalCode (errors errorResult) of
                Inl e \<Rightarrow> Inl e
              | Inr fixed \<Rightarrow> pixelFixLoop sv iteration (fixAttempt + 1) fixed lastWorkingCode)
     else Inr (finalCode, False, lastWorkingCode))"
  by pat_completeness auto
termination
  by (relation "measure (\<lambda>(sv, iteration, fixAttempt, finalCode, lastWorkingCode).
        nat (pixelMaxFixAttempts + 1 - fixAttempt))") auto

declare pixelFixLoop.simps [simp del]

text \<open>
  Error detection, fixing and the fallback of one round. The test
  \<^verbatim>\<open>lastWorkingCode\<close> in the condition is JavaScript truthiness: neither null nor
  the empty string. The result is \<^verbatim>\<open>finalCode\<close>, \<^verbatim>\<open>errorFixed\<close>,
  \<^verbatim>\<open>lastWorkingCode\<close> and \<^verbatim>\<open>fallbackCount\<close>.
\<close>

definition fixErrorsWithFallback ::
  "services \<Rightarrow> int \<Rightarrow> string \<Rightarrow> string option \<Rightarrow> int \<Rightarrow>
   error + string \<times> bool \<times> string option \<times> int" where
  "fixErrorsWithFallback sv iteration code lastWorkingCode fallbackCount =
    (case pixelFixLoop sv iteration 1 code lastWorkingCode of
       Inl e \<Rightarrow> Inl e
     | Inr (finalCode, errorFixed, lastWorkingCode') \<Rightarrow>
        (case lastWorkingCode' of
           Some working \<Rightarrow>
             if \<not> errorFixed \<and> working \<noteq> [] \<and> fallbackCount < maxFallbacks
             then Inr (working, True, lastWorkingCode', fallbackCount + 1)
             else Inr (finalCode, errorFixed, lastWorkingCode', fallbackCount)
         | None \<Rightarrow> Inr (finalCode, errorFixed, lastWorkingCode', fallbackCount)))"

definition analyzeTargetStructure :: "image \<Rightarrow> region list" where
  "analyzeTargetStructure img = findMajorRegions (img_data img) (img_width img) (img_height img)"

text \<open>The instructions and the score of \<^verbatim>\<open>compareAndGenerateInstructions\<close>.\<close>

definition compareAndGenerateInstructions :: "image \<Rightarrow> image \<Rightarrow> string list \<times> int" where
  "compareAndGenerateInstructions target generated =
    (let targetRegions = analyzeTargetStructure target;
         generatedRegions = analyzeTargetStructure generated
     in (createSimpleInstructions targetRegions generatedRegions,
         calculateSimpleScore targetRegions generatedRegions))"

definition joinLines :: "string list \<Rightarrow> string" where
  "joinLines ls = (case ls of [] \<Rightarrow> [] | l # rest \<Rightarrow> fold (\<lambda>x acc. acc @ [CHR 0x0A] @ x) rest l)"

definition formatInstructionsForGemini :: "string list \<Rightarrow> string" where
  "formatInstructionsForGemini instructions =
    (if length instructions = 0 then ''Perfect! The image matches the target exactly.''
     else joinLines
       ([''Based on precise pixel analysis, make these exact changes:'', []] @
        map (\<lambda>(index, instruction). showNat (index + 1) @ ''. '' @ instruction)
            (zip [0..<length instructions] instructions) @
        [[], ''Use exact coordinates and sizes as specified. Do not change other elements that are working correctly.'']))"

text \<open>The body of the iteration loop of \<^verbatim>\<open>runPixelFeedbackLoop\<close>.\<close>

definition pixelRoundStep :: "services \<Rightarrow> int \<Rightarrow> pixelState \<Rightarrow> error + pixelState \<times> bool" where
  "pixelRoundStep sv iteration st0 =
    (let st = st0\<lparr>px_currentIteration := iteration\<rparr> in
     case (if iteration = 1 then generateInitialCode sv
           else generateImprovedCode sv (px_previousCode st) (px_pixelInstructions st) iteration) of
       Inl e \<Rightarrow> Inl e
     | Inr code \<Rightarrow>
     (case fixErrorsWithFallback sv iteration code (px_lastWorkingCode st) (px_fallbackCount st) of
       Inl e \<Rightarrow> Inl e
     | Inr (finalCode, errorFixed, lastWorkingCode, fallbackCount) \<Rightarrow>
     (case captureSketch sv iteration finalCode of
       Inl e \<Rightarrow> Inl e
     | Inr u \<Rightarrow>
     (case loadTargetImage sv of
       Inl e \<Rightarrow> Inl e
     | Inr target \<Rightarrow>
     (case loadScreenshot sv iteration of
       Inl e \<Rightarrow> Inl e
     | Inr generated \<Rightarrow>
         let (instructions, anScore) = compareAndGenerateInstructions target generated;
             st1 = st\<lparr>px_lastWorkingCode := lastWorkingCode, px_fallbackCount := fallbackCount,
                      px_rounds := px_rounds st @
                        [\<lparr> pr_iteration = iteration, pr_code = finalCode,
                           pr_score = anScore, pr_instructions = instructions \<rparr>]\<rparr>;
             st2 = (if anScore > px_bestScore st1
                    then st1\<lparr>px_bestScore := anScore, px_bestIteration := iteration\<rparr>
                    else st1)
         in if anScore \<ge> pixelTargetScore then Inr (st2, True)
            else Inr (st2\<lparr>px_previousCode := Some finalCode,
                          px_pixelInstructions := Some (formatInstructionsForGemini instructions)\<rparr>,
                      False))))))"

function pixelLoop :: "services \<Rightarrow> int \<Rightarrow> pixelState \<Rightarrow> error + pixelState" where
  "pixelLoop sv iteration st =
    (if iteration \<le> pixelMaxIterations then
       case pixelRoundStep sv iteration st of
         Inl e \<Rightarrow> Inl e
       | Inr (st', stop) \<Rightarrow> if stop then Inr st' else pixelLoop sv (iteration + 1) st'
     else Inr st)"
  by pat_completeness auto
termination
  by (relation "measure (\<lambda>(sv, iteration, st). nat (pixelMaxIterations + 1 - iteration))") auto

declare pixelLoop.simps [simp del]

text \<open>
  \<^verbatim>\<open>runPixelFeedbackLoop\<close>: set-up and analysis of the target, then the loop. An
  exception is caught and returned as \<^verbatim>\<open>{success: false, error}\<close>, the value \<open>Inl\<close>.
\<close>

definition runPixelFeedbackLoop :: "services \<Rightarrow> error + pixelState" where
  "runPixelFeedbackLoop sv =
    (case setupSession sv of
       Inl e \<Rightarrow> Inl e
     | Inr u \<Rightarrow>
        (case loadTargetImage sv of
           Inl e \<Rightarrow> Inl e
         | Inr target \<Rightarrow> pixelLoop sv 1 pixelInitialState))"

section \<open>Example inputs\<close>

text \<open>A region object with the given colour, hex value, box and sampled pixel count.\<close>

definition regionAt :: "string \<Rightarrow> string \<Rightarrow> chan \<times> chan \<times> chan \<Rightarrow> int \<Rightarrow> int \<Rightarrow> int \<Rightarrow> int \<Rightarrow> int \<Rightarrow> region" where
  "regionAt name hexValue channels px py w h count =
     \<lparr> color = name, hex = hexValue, rgb = channels,
       bounds = \<lparr> b_x = px, b_y = py, b_width = w, b_height = h \<rparr>,
       area = w * h, pixelCount = count \<rparr>"

text \<open>Two red squares far apart, the larger one first.\<close>

definition redSquareA :: region where
  "redSquareA = regionAt ''red'' ''#FF0000'' (Some 255, Some 0, Some 0) 0 0 100 100 2601"

definition redSquareB :: region where
  "redSquareB = regionAt ''red'' ''#FF0000'' (Some 255, Some 0, Some 0) 200 200 90 90 2116"

text \<open>
  Three blue boxes: \<open>blueC\<close> (a second shade of blue) starts two pixels to the right of
  \<open>blueA\<close>, and \<open>blueB\<close> lies apart from both but inside the box spanned by
  \<open>blueA\<close> and \<open>blueC\<close> together.
\<close>

definition blueA :: region where
  "blueA = regionAt ''blue'' ''#0000FF'' (Some 0, Some 0, Some 255) 0 0 60 60 961"

definition blueC :: region where
  "blueC = regionAt ''blue'' ''#0064C8'' (Some 0, Some 100, Some 200) 62 0 58 180 2730"

definition blueB :: region where
  "blueB = regionAt ''blue'' ''#0000FF'' (Some 0, Some 0, Some 255) 0 120 40 40 441"

text \<open>
  Two white regions of a 1000 x 1000 image: a background covering 59.88 percent of the
  image and a patch covering 5 percent of it.
\<close>

definition whiteBackground :: region where
  "whiteBackground = regionAt ''white'' ''#FFFFFF'' (Some 255, Some 255, Some 255) 0 0 998 600 137774"

definition whitePatch :: region where
  "whitePatch = regionAt ''white'' ''#C8C8C8'' (Some 200, Some 200, Some 200) 100 100 250 200 12726"


definition transparent2x2 :: "nat list" where
  "transparent2x2 = replicate 16 0"

definition blankImage :: image where
  "blankImage = \<lparr> img_data = transparent2x2, img_width = 2, img_height = 2 \<rparr>"


definition cleanResult :: errorResult where
  "cleanResult = \<lparr> hasErrors = False, canvasExists = True, errors = [] \<rparr>"


text \<open>A configuration with two rounds and target score 10, evaluated by the generator itself.\<close>

definition twoRoundConfig :: config where
  "twoRoundConfig = \<lparr> cfg_maxIterations = Some 2, cfg_targetScore = Some 10,
     cfg_evaluationMode = Some ''self'', cfg_hasGeminiApiKey = True, cfg_hasGroqApiKey = False \<rparr>"

definition twoRoundOrchestrator :: orchestrator where
  "twoRoundOrchestrator = \<lparr> maxIterations = 2, targetScore = 10, evaluationMode = ''self'',
     hasGroqEvaluator = False, maxFixAttempts = 3 \<rparr>"

text \<open>The default number of rounds (five) with target score 10.\<close>

definition fiveRoundConfig :: config where
  "fiveRoundConfig = \<lparr> cfg_maxIterations = None, cfg_targetScore = Some 10,
     cfg_evaluationMode = None, cfg_hasGeminiApiKey = True, cfg_hasGroqApiKey = False \<rparr>"

definition fiveRoundOrchestrator :: orchestrator where
  "fiveRoundOrchestrator = \<lparr> maxIterations = 5, targetScore = 10, evaluationMode = ''self'',
     hasGroqEvaluator = False, maxFixAttempts = 3 \<rparr>"

text \<open>
  Collaborators that always answer; the visual comparison fails in round 1 (score 0) and
  succeeds from round 2 on (score 10).
\<close>

definition lateMatchServices :: services where
  "lateMatchServices = \<lparr>
     setupSession = Inr (),
     generateInitialCode = Inr ''<html>first</html>'',
     generateImprovedCode = (\<lambda>prevCode prevFeedback iteration. Inr ''<html>improved</html>''),
     detectErrors = (\<lambda>iteration attempt code. Inr cleanResult),
     fixJavaScriptErrors = (\<lambda>iteration attempt code errs. Inr code),
     captureSketch = (\<lambda>iteration code. Inr ()),
     compareImagesAndImprove = (\<lambda>iteration code.
        if iteration = 1 then AnalysisFailed ''Gemini API error: 503''
        else AnalysisOk ''Differences: none''),
     compareImages = (\<lambda>iteration. Inr (0, [])),
     loadTargetImage = Inr blankImage,
     loadScreenshot = (\<lambda>iteration. Inr blankImage) \<rparr>"

definition lateMatchFinal :: sessionState where
  "lateMatchFinal = \<lparr> previousCode = Some ''<html>first</html>'',
     previousFeedback = Some ''Gemini API error: 503'',
     bestScore = 10, bestIteration = 2, bestCode = Some ''<html>improved</html>'',
     currentIteration = 2,
     iterations =
       [\<lparr> it_iteration = 1, it_code = ''<html>first</html>'', it_score = 0,
          it_feedback = ''Gemini API error: 503'' \<rparr>,
        \<lparr> it_iteration = 2, it_code = ''<html>improved</html>'', it_score = 10,
          it_feedback = ''Differences: none'' \<rparr>] \<rparr>"

text \<open>The state of that session after its first round.\<close>

definition afterFirstRound :: sessionState where
  "afterFirstRound = \<lparr> previousCode = Some ''<html>first</html>'',
     previousFeedback = Some ''Gemini API error: 503'',
     bestScore = 0, bestIteration = 1, bestCode = None, currentIteration = 1,
     iterations =
       [\<lparr> it_iteration = 1, it_code = ''<html>first</html>'', it_score = 0,
          it_feedback = ''Gemini API error: 503'' \<rparr>] \<rparr>"

text \<open>The same collaborators, but the visual comparison succeeds in every round.\<close>

definition alwaysMatchServices :: services where
  "alwaysMatchServices = lateMatchServices
     \<lparr> compareImagesAndImprove := (\<lambda>iteration code. AnalysisOk ''Differences: none'') \<rparr>"

definition earlyMatchFinal :: sessionState where
  "earlyMatchFinal = \<lparr> previousCode = None, previousFeedback = None,
     bestScore = 10, bestIteration = 1, bestCode = Some ''<html>first</html>'',
     currentIteration = 1,
     iterations =
       [\<lparr> it_iteration = 1, it_code = ''<html>first</html>'', it_score = 10,
          it_feedback = ''Differences: none'' \<rparr>] \<rparr>"

text \<open>The same collaborators, but every request for improved code fails.\<close>

definition improveFailsServices :: services where
  "improveFailsServices = lateMatchServices
     \<lparr> generateImprovedCode :=
         (\<lambda>prevCode prevFeedback iteration. Inl (Error ''Gemini API error: 503 Service Unavailable'')) \<rparr>"


text \<open>A red square whose origin is 20 pixels (10 + 10) away from that of \<open>redSquareA\<close>.\<close>

definition redSquareNear :: region where
  "redSquareNear = regionAt ''red'' ''#FF0000'' (Some 255, Some 0, Some 0) 10 10 100 100 2601"


text \<open>
  Two placements of one red square relative to \<open>redSquareA\<close>, whose origin is (0, 0):
  at (11, 10), and moved to (20, 0) with everything else unchanged.
\<close>

definition redSquareDiagonal :: region where
  "redSquareDiagonal = regionAt ''red'' ''#FF0000'' (Some 255, Some 0, Some 0) 11 10 100 100 2601"

definition redSquareAside :: region where
  "redSquareAside = redSquareDiagonal\<lparr>bounds := (bounds redSquareDiagonal)\<lparr>b_x := 20, b_y := 0\<rparr>\<rparr>"

section \<open>Auxiliary facts\<close>

lemma fold_unchanged: "(\<And>t. t \<in> set ts \<Longrightarrow> f t s = s) \<Longrightarrow> fold f ts s = s"
  by (induction ts) auto

lemma fold_fixed: "(\<And>t s. t \<in> set ts \<Longrightarrow> f t s = s) \<Longrightarrow> fold f ts s = s"
  by (induction ts arbitrary: s) auto

lemma find_append_cases:
  "find P (xs @ ys) = (case find P xs of None \<Rightarrow> find P ys | Some x \<Rightarrow> Some x)"
  by (induction xs) auto

lemma length_of_upto: "map f xs = [1..n] \<Longrightarrow> 0 \<le> n \<Longrightarrow> int (length xs) = n"
proof -
  assume a: "map f xs = [1..n]" and n: "0 \<le> n"
  have "length xs = length (map f xs)" by simp
  also have "\<dots> = length [1..n]" using a by simp
  also have "\<dots> = nat n" by simp
  finally show ?thesis using n by simp
qed

section \<open>Properties of the scorer\<close>

lemma find_first_of_color:
  assumes "distinct (map color (take n R))" "i < n" "i < length R"
  shows "findBestColorMatch (R ! i) R = Some (R ! i)"
proof -
  have "\<forall>j<i. color (R ! j) \<noteq> color (R ! i)"
  proof (intro allI impI)
    fix j assume "j < i"
    with assms have len: "j < length (map color (take n R))" "i < length (map color (take n R))"
      and ne: "j \<noteq> i" by auto
    from assms(1) len ne have "map color (take n R) ! j \<noteq> map color (take n R) ! i"
      unfolding distinct_conv_nth by blast
    with \<open>j < i\<close> assms show "color (R ! j) \<noteq> color (R ! i)" by simp
  qed
  with assms show ?thesis
    unfolding findBestColorMatch_def find_Some_iff by auto
qed

lemma in_take_first:
  assumes "distinct (map color (take 5 R))" "t \<in> set (take k R)" "k \<le> 5"
  shows "findBestColorMatch t R = Some t"
proof -
  from assms(2) obtain i where i: "i < length (take k R)" "t = take k R ! i"
    by (auto simp: in_set_conv_nth)
  then have "i < 5" "i < length R" "t = R ! i" using assms(3) by auto
  then show ?thesis using find_first_of_color[OF assms(1)] by simp
qed

lemma scoreStep_self: "findBestColorMatch t R = Some t \<Longrightarrow> scoreStep R t s = s"
  by (simp add: scoreStep_def positionDiffOf_def sizeDiffOf_def)

lemma instructionStep_self:
  "findBestColorMatch t R = Some t \<Longrightarrow> instructionStep R t ins = ins"
  by (simp add: instructionStep_def positionDiffOf_def sizeDiffOf_def Let_def)

text \<open>
  Claim C3, as amended. For every region list whose first five regions have pairwise
  different colour classifications, scoring the list against itself gives the maximum
  score 100 and the instruction generator returns the empty list.
\<close>

theorem identical_regions_score_100:
  assumes "distinct (map color (take 5 R))"
  shows "calculateSimpleScore R R = 100 \<and> createSimpleInstructions R R = []"
proof -
  have "fold (scoreStep R) (take 4 R) 100 = 100"
    by (rule fold_fixed) (simp add: scoreStep_self in_take_first[OF assms])
  moreover have "fold (instructionStep R) (take 5 R) [] = []"
    by (rule fold_fixed) (simp add: instructionStep_self in_take_first[OF assms])
  ultimately show ?thesis
    by (simp add: calculateSimpleScore_def createSimpleInstructions_def)
qed

text \<open>Witness for C3: a red and a blue region.\<close>

theorem identical_regions_score_100_witness:
  "distinct (map color (take 5 [redSquareA, blueA])) \<and>
   calculateSimpleScore [redSquareA, blueA] [redSquareA, blueA] = 100 \<and>
   createSimpleInstructions [redSquareA, blueA] [redSquareA, blueA] = []"
proof -
  have h: "distinct (map color (take 5 [redSquareA, blueA]))"
    by (simp add: redSquareA_def blueA_def regionAt_def)
  from identical_regions_score_100[OF h] h show ?thesis by simp
qed

text \<open>
  Counterexample to C3 as stated: a region list with two red squares, scored against
  itself, gets 95 and one instruction, because the second square is compared with the
  first.
\<close>

theorem repeated_color_counterexample:
  "calculateSimpleScore [redSquareA, redSquareB] [redSquareA, redSquareB] = 95 \<and>
   createSimpleInstructions [redSquareA, redSquareB] [redSquareA, redSquareB] =
     [''Fix #FF0000 rectangle: move to (200, 200) and resize to 90x90'']"
  by code_simp

text \<open>
  Claim C6, as amended. For a target with one region and a candidate with one region of
  the same colour, the score is monotonically non-increasing in the position error as
  the scorer measures it, the sum of the horizontal and vertical offsets of the box
  origins: moving the candidate's box to a position where this sum is at least as large,
  with everything else unchanged, never increases the score.
\<close>

theorem score_monotone_in_position_error:
  assumes "color c = color t"
    and "\<bar>b_x (bounds t) - b_x (bounds c)\<bar> + \<bar>b_y (bounds t) - b_y (bounds c)\<bar>
         \<le> \<bar>b_x (bounds t) - x'\<bar> + \<bar>b_y (bounds t) - y'\<bar>"
  shows "calculateSimpleScore [t] [c\<lparr>bounds := (bounds c)\<lparr>b_x := x', b_y := y'\<rparr>\<rparr>]
         \<le> calculateSimpleScore [t] [c]"
  using assms
  by (simp add: calculateSimpleScore_def scoreStep_def findBestColorMatch_def
      positionDiffOf_def sizeDiffOf_def Let_def)

text \<open>
  Witness for C6: moving the candidate from offset (10, 10) to offset (30, 30) lowers the
  score from 100 to 95.
\<close>

theorem score_monotone_in_position_error_witness:
  "color redSquareNear = color redSquareA \<and>
   calculateSimpleScore [redSquareA]
      [redSquareNear\<lparr>bounds := (bounds redSquareNear)\<lparr>b_x := 30, b_y := 30\<rparr>\<rparr>]
     \<le> calculateSimpleScore [redSquareA] [redSquareNear] \<and>
   calculateSimpleScore [redSquareA] [redSquareNear] = 100 \<and>
   calculateSimpleScore [redSquareA]
      [redSquareNear\<lparr>bounds := (bounds redSquareNear)\<lparr>b_x := 30, b_y := 30\<rparr>\<rparr>] = 95"
proof -
  have h1: "color redSquareNear = color redSquareA"
    by (simp add: redSquareNear_def redSquareA_def regionAt_def)
  have h2: "\<bar>b_x (bounds redSquareA) - b_x (bounds redSquareNear)\<bar> +
            \<bar>b_y (bounds redSquareA) - b_y (bounds redSquareNear)\<bar>
            \<le> \<bar>b_x (bounds redSquareA) - 30\<bar> + \<bar>b_y (bounds redSquareA) - 30\<bar>"
    by (simp add: redSquareNear_def redSquareA_def regionAt_def)
  have v: "calculateSimpleScore [redSquareA] [redSquareNear] = 100"
    "calculateSimpleScore [redSquareA]
      [redSquareNear\<lparr>bounds := (bounds redSquareNear)\<lparr>b_x := 30, b_y := 30\<rparr>\<rparr>] = 95"
    by (simp_all add: calculateSimpleScore_def scoreStep_def findBestColorMatch_def positionDiffOf_def
      sizeDiffOf_def redSquareA_def redSquareNear_def regionAt_def)
  from score_monotone_in_position_error[OF h1 h2] h1 v show ?thesis by simp
qed

text \<open>
  Counterexample to C6 as stated. The target's origin is (0, 0). The candidate at
  (11, 10) is moved to (20, 0), everything else unchanged: it is strictly farther from
  the target both in straight-line distance (squared 221 against 400) and in the larger
  of the two offsets (11 against 20), and the score rises from 98 to 100.
\<close>

theorem farther_candidate_scores_higher:
  "color redSquareDiagonal = color redSquareA \<and>
   b_x (bounds redSquareA) = 0 \<and> b_y (bounds redSquareA) = 0 \<and>
   (b_x (bounds redSquareDiagonal))\<^sup>2 + (b_y (bounds redSquareDiagonal))\<^sup>2
     < (b_x (bounds redSquareAside))\<^sup>2 + (b_y (bounds redSquareAside))\<^sup>2 \<and>
   max \<bar>b_x (bounds redSquareDiagonal)\<bar> \<bar>b_y (bounds redSquareDiagonal)\<bar>
     < max \<bar>b_x (bounds redSquareAside)\<bar> \<bar>b_y (bounds redSquareAside)\<bar> \<and>
   calculateSimpleScore [redSquareA] [redSquareDiagonal] = 98 \<and>
   calculateSimpleScore [redSquareA] [redSquareAside] = 100"
  by (simp add: calculateSimpleScore_def scoreStep_def findBestColorMatch_def positionDiffOf_def
      sizeDiffOf_def redSquareA_def redSquareDiagonal_def redSquareAside_def regionAt_def)

lemma sortByAreaDesc_sorted: "sorted_wrt (\<lambda>a b. area a \<ge> area b) (sortByAreaDesc regions)"
proof -
  have "sorted (map (\<lambda>r. - area r) (sort_key (\<lambda>r. - area r) regions))"
    by (rule sorted_sort_key)
  then show ?thesis
    by (simp add: sortByAreaDesc_def sorted_wrt_map)
qed

lemma findMajorRegions_sorted:
  "sorted_wrt (\<lambda>a b. area a \<ge> area b) (findMajorRegions data width height)"
  by (simp add: findMajorRegions_def Let_def sortByAreaDesc_sorted split: prod.splits)

lemma match_split:
  assumes "findBestColorMatch t gs = Some m"
  shows "\<exists>i<length gs. m = gs ! i \<and> color m = color t \<and> (\<forall>j<i. color (gs ! j) \<noteq> color t)"
  using assms unfolding findBestColorMatch_def find_Some_iff by blast

lemma match_found:
  "(\<exists>r\<in>set gs. color r = color t) \<Longrightarrow> \<exists>m. findBestColorMatch t gs = Some m"
  unfolding findBestColorMatch_def by (cases "find (\<lambda>region. color region = color t) gs")
    (auto simp: find_None_iff)

lemma match_none:
  "(\<forall>r\<in>set gs. color r \<noteq> color t) \<Longrightarrow> findBestColorMatch t gs = None"
  unfolding findBestColorMatch_def by (simp add: find_None_iff)

text \<open>
  Claim C10. The list returned by the region extractor is ordered by area, largest
  first, and the ordering keeps the regions. The colour-match lookup returns nothing
  exactly when no candidate has the target's colour (the target then costs 25 points);
  otherwise it returns the first region of the candidate list with the target's colour.
  The position and size deductions of the score, and the "Fix ... move ... resize"
  instruction, are those computed from the offsets between the target and this
  region; and in a list ordered by area no region of that colour is larger than it.
\<close>

theorem color_match_is_first_and_largest:
  "sorted_wrt (\<lambda>a b. area a \<ge> area b) (findMajorRegions data width height) \<and>
   sorted_wrt (\<lambda>a b. area a \<ge> area b) (sortByAreaDesc rs) \<and>
   set (sortByAreaDesc rs) = set rs \<and> length (sortByAreaDesc rs) = length rs \<and>
   ((\<forall>r\<in>set gs. color r \<noteq> color t) \<longrightarrow>
      findBestColorMatch t gs = None \<and> scoreStep gs t s = s - 25 \<and>
      calculateSimpleScore [t] gs = 75) \<and>
   ((\<exists>r\<in>set gs. color r = color t) \<longrightarrow> (\<exists>first. findBestColorMatch t gs = Some first)) \<and>
   (findBestColorMatch t gs = Some m \<longrightarrow>
      (\<exists>before after. gs = before @ m # after \<and> (\<forall>r\<in>set before. color r \<noteq> color t)) \<and>
      color m = color t \<and>
      scoreStep gs t s =
        s - (if \<bar>b_x (bounds t) - b_x (bounds m)\<bar> + \<bar>b_y (bounds t) - b_y (bounds m)\<bar> > 50 then 5
             else if \<bar>b_x (bounds t) - b_x (bounds m)\<bar> + \<bar>b_y (bounds t) - b_y (bounds m)\<bar> > 20
               then 2 else 0)
          - (if \<bar>b_width (bounds t) - b_width (bounds m)\<bar> +
                \<bar>b_height (bounds t) - b_height (bounds m)\<bar> > 50 then 5
             else if \<bar>b_width (bounds t) - b_width (bounds m)\<bar> +
                     \<bar>b_height (bounds t) - b_height (bounds m)\<bar> > 20 then 2 else 0) \<and>
      calculateSimpleScore [t] gs =
        100 - (if \<bar>b_x (bounds t) - b_x (bounds m)\<bar> + \<bar>b_y (bounds t) - b_y (bounds m)\<bar> > 50 then 5
             else if \<bar>b_x (bounds t) - b_x (bounds m)\<bar> + \<bar>b_y (bounds t) - b_y (bounds m)\<bar> > 20
               then 2 else 0)
          - (if \<bar>b_width (bounds t) - b_width (bounds m)\<bar> +
                \<bar>b_height (bounds t) - b_height (bounds m)\<bar> > 50 then 5
             else if \<bar>b_width (bounds t) - b_width (bounds m)\<bar> +
                     \<bar>b_height (bounds t) - b_height (bounds m)\<bar> > 20 then 2 else 0) \<and>
      instructionStep gs t ins =
        (if \<bar>b_x (bounds t) - b_x (bounds m)\<bar> + \<bar>b_y (bounds t) - b_y (bounds m)\<bar> > 15 \<or>
            \<bar>b_width (bounds t) - b_width (bounds m)\<bar> +
            \<bar>b_height (bounds t) - b_height (bounds m)\<bar> > 15
         then ins @
           [''Fix '' @ hex t @ '' '' @
            (if gtNum (aspectRatioOf (bounds t)) 8 then ''line'' else ''rectangle'') @
            '': move to ('' @ showInt (b_x (bounds t)) @ '', '' @ showInt (b_y (bounds t)) @
            '') and resize to '' @ showInt (b_width (bounds t)) @ ''x'' @
            showInt (b_height (bounds t))]
         else ins) \<and>
      createSimpleInstructions [t] gs = instructionStep gs t [] \<and>
      (sorted_wrt (\<lambda>a b. area a \<ge> area b) gs \<longrightarrow>
         (\<forall>r\<in>set gs. color r = color t \<longrightarrow> area r \<le> area m)))"
proof (intro conjI impI)
  show "sorted_wrt (\<lambda>a b. area a \<ge> area b) (findMajorRegions data width height)"
    by (rule findMajorRegions_sorted)
  show "sorted_wrt (\<lambda>a b. area a \<ge> area b) (sortByAreaDesc rs)"
    by (rule sortByAreaDesc_sorted)
  show "set (sortByAreaDesc rs) = set rs" by (simp add: sortByAreaDesc_def)
  show "length (sortByAreaDesc rs) = length rs" by (simp add: sortByAreaDesc_def)
next
  assume no: "\<forall>r\<in>set gs. color r \<noteq> color t"
  from match_none[OF no] show n: "findBestColorMatch t gs = None" .
  show "scoreStep gs t s = s - 25" by (simp add: scoreStep_def n)
  show "calculateSimpleScore [t] gs = 75" by (simp add: calculateSimpleScore_def scoreStep_def n)
next
  assume "\<exists>r\<in>set gs. color r = color t"
  then show "\<exists>first. findBestColorMatch t gs = Some first" by (rule match_found)
next
  assume fm: "findBestColorMatch t gs = Some m"
  from match_split[OF fm] obtain i where i: "i < length gs" "m = gs ! i"
    and cm: "color m = color t" and first: "\<forall>j<i. color (gs ! j) \<noteq> color t" by blast
  show "color m = color t" by (rule cm)
  have "gs = take i gs @ m # drop (Suc i) gs"
    using i by (simp add: id_take_nth_drop)
  moreover have "\<forall>r\<in>set (take i gs). color r \<noteq> color t"
    using first i by (auto simp: in_set_conv_nth)
  ultimately show "\<exists>before after. gs = before @ m # after \<and> (\<forall>r\<in>set before. color r \<noteq> color t)"
    by blast
  show "scoreStep gs t s =
        s - (if \<bar>b_x (bounds t) - b_x (bounds m)\<bar> + \<bar>b_y (bounds t) - b_y (bounds m)\<bar> > 50 then 5
             else if \<bar>b_x (bounds t) - b_x (bounds m)\<bar> + \<bar>b_y (bounds t) - b_y (bounds m)\<bar> > 20
               then 2 else 0)
          - (if \<bar>b_width (bounds t) - b_width (bounds m)\<bar> +
                \<bar>b_height (bounds t) - b_height (bounds m)\<bar> > 50 then 5
             else if \<bar>b_width (bounds t) - b_width (bounds m)\<bar> +
                     \<bar>b_height (bounds t) - b_height (bounds m)\<bar> > 20 then 2 else 0)"
    by (simp add: scoreStep_def fm positionDiffOf_def sizeDiffOf_def Let_def)
  show "calculateSimpleScore [t] gs =
        100 - (if \<bar>b_x (bounds t) - b_x (bounds m)\<bar> + \<bar>b_y (bounds t) - b_y (bounds m)\<bar> > 50 then 5
             else if \<bar>b_x (bounds t) - b_x (bounds m)\<bar> + \<bar>b_y (bounds t) - b_y (bounds m)\<bar> > 20
               then 2 else 0)
          - (if \<bar>b_width (bounds t) - b_width (bounds m)\<bar> +
                \<bar>b_height (bounds t) - b_height (bounds m)\<bar> > 50 then 5
             else if \<bar>b_width (bounds t) - b_width (bounds m)\<bar> +
                     \<bar>b_height (bounds t) - b_height (bounds m)\<bar> > 20 then 2 else 0)"
    by (simp add: calculateSimpleScore_def scoreStep_def fm positionDiffOf_def sizeDiffOf_def Let_def)
  show "instructionStep gs t ins =
        (if \<bar>b_x (bounds t) - b_x (bounds m)\<bar> + \<bar>b_y (bounds t) - b_y (bounds m)\<bar> > 15 \<or>
            \<bar>b_width (bounds t) - b_width (bounds m)\<bar> +
            \<bar>b_height (bounds t) - b_height (bounds m)\<bar> > 15
         then ins @
           [''Fix '' @ hex t @ '' '' @
            (if gtNum (aspectRatioOf (bounds t)) 8 then ''line'' else ''rectangle'') @
            '': move to ('' @ showInt (b_x (bounds t)) @ '', '' @ showInt (b_y (bounds t)) @
            '') and resize to '' @ showInt (b_width (bounds t)) @ ''x'' @
            showInt (b_height (bounds t))]
         else ins)"
    by (simp add: instructionStep_def fm positionDiffOf_def sizeDiffOf_def Let_def)
  show "createSimpleInstructions [t] gs = instructionStep gs t []"
    by (simp add: createSimpleInstructions_def instructionStep_def fm Let_def)
  show "\<forall>r\<in>set gs. color r = color t \<longrightarrow> area r \<le> area m"
    if srt: "sorted_wrt (\<lambda>a b. area a \<ge> area b) gs"
  proof (intro ballI impI)
    fix r assume "r \<in> set gs" and cr: "color r = color t"
    then obtain k where k: "k < length gs" "r = gs ! k" by (auto simp: in_set_conv_nth)
    with first cr have "\<not> k < i" by auto
    then consider "k = i" | "i < k" by linarith
    then show "area r \<le> area m"
    proof cases
      case 1
      with k i show ?thesis by simp
    next
      case 2
      with srt k i show ?thesis by (simp add: sorted_wrt_iff_nth_less)
    qed
  qed
qed

text \<open>
  Witness for C10: the candidates are both red squares. For the smaller square as target
  the match is the larger, farther square, although the candidate list contains the
  target itself: the score is 95 and a Fix instruction is given. For a blue target
  there is no match and the score is 75.
\<close>

theorem color_match_is_first_and_largest_witness:
  "findBestColorMatch redSquareB [redSquareA, redSquareB] = Some redSquareA \<and>
   sorted_wrt (\<lambda>a b. area a \<ge> area b) [redSquareA, redSquareB] \<and>
   color redSquareA = color redSquareB \<and>
   area redSquareB \<le> area redSquareA \<and>
   scoreStep [redSquareA, redSquareB] redSquareB 100 = 95 \<and>
   calculateSimpleScore [redSquareB] [redSquareA, redSquareB] = 95 \<and>
   instructionStep [redSquareA, redSquareB] redSquareB [] =
     [''Fix #FF0000 rectangle: move to (200, 200) and resize to 90x90''] \<and>
   createSimpleInstructions [redSquareB] [redSquareA, redSquareB] =
     [''Fix #FF0000 rectangle: move to (200, 200) and resize to 90x90''] \<and>
   findBestColorMatch blueA [redSquareA, redSquareB] = None \<and>
   scoreStep [redSquareA, redSquareB] blueA 100 = 75 \<and>
   calculateSimpleScore [blueA] [redSquareA, redSquareB] = 75"
proof -
  let ?gs = "[redSquareA, redSquareB]"
  have h1: "findBestColorMatch redSquareB ?gs = Some redSquareA"
    by (simp add: findBestColorMatch_def redSquareA_def redSquareB_def regionAt_def)
  have h2: "sorted_wrt (\<lambda>a b. area a \<ge> area b) ?gs"
    by (simp add: redSquareA_def redSquareB_def regionAt_def)
  have h3: "\<exists>r\<in>set ?gs. color r = color redSquareB" by simp
  have h4: "\<forall>r\<in>set ?gs. color r \<noteq> color blueA"
    by (simp add: redSquareA_def redSquareB_def blueA_def regionAt_def)
  have mem: "redSquareB \<in> set ?gs" by simp
  note A = color_match_is_first_and_largest[where data = "[]" and width = 0 and height = 0
      and rs = "[]" and gs = ?gs and t = redSquareB and m = redSquareA and s = 100 and ins = "[]"]
  note B = color_match_is_first_and_largest[where data = "[]" and width = 0 and height = 0
      and rs = "[]" and gs = ?gs and t = blueA and m = redSquareA and s = 100 and ins = "[]"]
  note A6 = A[THEN conjunct2, THEN conjunct2, THEN conjunct2, THEN conjunct2, THEN conjunct2,
      THEN conjunct1, THEN mp, OF h3]
  note A7 = A[THEN conjunct2, THEN conjunct2, THEN conjunct2, THEN conjunct2, THEN conjunct2,
      THEN conjunct2, THEN mp, OF h1]
  note B5 = B[THEN conjunct2, THEN conjunct2, THEN conjunct2, THEN conjunct2, THEN conjunct1,
      THEN mp, OF h4]
  have cm: "color redSquareA = color redSquareB"
    by (rule A7[THEN conjunct2, THEN conjunct1])
  have ar: "area redSquareB \<le> area redSquareA"
    using A7[THEN conjunct2, THEN conjunct2, THEN conjunct2, THEN conjunct2, THEN conjunct2,
      THEN conjunct2, THEN mp, OF h2] mem cm by blast
  have sc: "scoreStep ?gs redSquareB 100 = 95"
    using A7[THEN conjunct2, THEN conjunct2, THEN conjunct1]
    by (simp add: redSquareA_def redSquareB_def regionAt_def)
  have cs: "calculateSimpleScore [redSquareB] ?gs = 95"
    using A7[THEN conjunct2, THEN conjunct2, THEN conjunct2, THEN conjunct1]
    by (simp add: redSquareA_def redSquareB_def regionAt_def)
  have ins: "instructionStep ?gs redSquareB [] =
     [''Fix #FF0000 rectangle: move to (200, 200) and resize to 90x90'']"
    using A7[THEN conjunct2, THEN conjunct2, THEN conjunct2, THEN conjunct2, THEN conjunct1]
    by (simp add: redSquareA_def redSquareB_def regionAt_def aspectRatioOf_def showInt_def
        showNat.simps)
  have cr: "createSimpleInstructions [redSquareB] ?gs =
     [''Fix #FF0000 rectangle: move to (200, 200) and resize to 90x90'']"
    using A7[THEN conjunct2, THEN conjunct2, THEN conjunct2, THEN conjunct2, THEN conjunct2,
      THEN conjunct1] ins by simp
  have none: "findBestColorMatch blueA ?gs = None"
    "scoreStep ?gs blueA 100 = 75" "calculateSimpleScore [blueA] ?gs = 75"
    using B5 by simp_all
  from A6 have found: "findBestColorMatch redSquareB ?gs \<noteq> None" by auto
  from h1 h2 cm ar sc cs ins cr none show ?thesis by blast
qed

section \<open>Properties of region extraction and consolidation\<close>






lemma collectOverlapping_none:
  assumes "\<And>j. i < j \<Longrightarrow> j < length regions \<Longrightarrow>
             \<not> (color (regions ! i) = color (regions ! j) \<and>
                shouldMergeRegions (regions ! i) (regions ! j))"
  shows "collectOverlapping regions i used = ([], insert i used)"
  unfolding collectOverlapping_def
  by (rule fold_unchanged) (use assms in auto)

lemma consolidateFrom_unmergeable:
  assumes "\<And>i j. i < j \<Longrightarrow> j < length regions \<Longrightarrow>
             \<not> (color (regions ! i) = color (regions ! j) \<and>
                shouldMergeRegions (regions ! i) (regions ! j))"
    and "used \<subseteq> {..<i}" and "i \<le> length regions"
  shows "consolidateFrom regions i used consolidated = consolidated @ drop i regions"
  using assms(2,3)
proof (induction "length regions - i" arbitrary: i used consolidated)
  case 0
  then show ?case by (subst consolidateFrom.simps) simp
next
  case (Suc n)
  then have lt: "i < length regions" by simp
  from Suc.prems have notused: "i \<notin> used" by auto
  have co: "collectOverlapping regions i used = ([], insert i used)"
    by (rule collectOverlapping_none) (use assms(1) in blast)
  have "consolidateFrom regions (i + 1) (insert i used) (consolidated @ [regions ! i])
        = (consolidated @ [regions ! i]) @ drop (i + 1) regions"
  proof (rule Suc.hyps(1))
    show "n = length regions - (i + 1)" using Suc.hyps(2) by simp
    show "insert i used \<subseteq> {..<i + 1}" using Suc.prems(1) by auto
    show "i + 1 \<le> length regions" using lt by simp
  qed
  moreover have "drop i regions = regions ! i # drop (i + 1) regions"
    using lt by (simp add: Cons_nth_drop_Suc)
  ultimately show ?case
    using lt notused co by (subst consolidateFrom.simps) simp
qed

text \<open>
  Claim C5, as amended. Consolidating a region list in which no region should be merged
  with a later region of the same colour returns the list unchanged, with no merge
  performed.
\<close>

theorem consolidation_fixed_when_unmergeable:
  assumes "\<And>i j. i < j \<Longrightarrow> j < length regions \<Longrightarrow>
             \<not> (color (regions ! i) = color (regions ! j) \<and>
                shouldMergeRegions (regions ! i) (regions ! j))"
  shows "consolidateOverlappingRegions regions = regions"
  unfolding consolidateOverlappingRegions_def
  using consolidateFrom_unmergeable[OF assms, of "{}" 0 "[]"] by simp

text \<open>Witness for C5: the two red squares, which are far apart.\<close>

theorem consolidation_fixed_when_unmergeable_witness: "consolidateOverlappingRegions [redSquareA, redSquareB] = [redSquareA, redSquareB]"
proof (rule consolidation_fixed_when_unmergeable)
  fix i j :: nat
  assume "i < j" "j < length [redSquareA, redSquareB]"
  then have ij: "i = 0" "j = 1" by auto
  have "\<not> shouldMergeRegions redSquareA redSquareB"
    by (simp add: shouldMergeRegions_def regionsOverlap_def redSquareA_def redSquareB_def regionAt_def)
  with ij show "\<not> (color ([redSquareA, redSquareB] ! i) = color ([redSquareA, redSquareB] ! j) \<and>
                shouldMergeRegions ([redSquareA, redSquareB] ! i) ([redSquareA, redSquareB] ! j))"
    by simp
qed

text \<open>
  Counterexample to C5 as stated: consolidating the three blue boxes merges \<open>blueA\<close>
  with \<open>blueC\<close> and leaves \<open>blueB\<close>; consolidating that result merges once more.
\<close>

theorem consolidation_not_idempotent:
  "consolidateOverlappingRegions (consolidateOverlappingRegions [blueA, blueC, blueB])
     \<noteq> consolidateOverlappingRegions [blueA, blueC, blueB]"
  by code_simp

text \<open>
  Claim C9, evaluated on the code. The guard compares the areas with the fixed area
  261 x 373. Of the two white regions of a 1000 x 1000 image, one covers more than half
  of the image and the other less than a tenth of it; the guard lets them merge, and
  consolidation merges them into one region.
\<close>

theorem guard_ignores_image_size:
  "shouldMergeRegions whiteBackground whitePatch \<and>
   2 * area whiteBackground > 1000 * 1000 \<and> 10 * area whitePatch < 1000 * 1000 \<and>
   length (consolidateOverlappingRegions [whiteBackground, whitePatch]) = 1"
  by code_simp

section \<open>Properties of the session orchestrator\<close>

lemma evaluateIteration_nonneg:
  "evaluateIteration orch sv code i = Inr (s, f) \<Longrightarrow> 0 \<le> s"
  by (auto simp: evaluateIteration_def split: if_splits visualAnalysis.splits sum.splits)

lemma runRound_Inr:
  assumes "runRound orch sv i st = Inr (st', stop)"
  shows "\<exists>code s f. 0 \<le> s \<and>
           iterations st' = iterations st @
             [\<lparr> it_iteration = i, it_code = code, it_score = s, it_feedback = f \<rparr>] \<and>
           stop = (s \<ge> targetScore orch) \<and>
           bestScore st' = (if s > bestScore st then s else bestScore st) \<and>
           bestIteration st' = (if s > bestScore st then i else bestIteration st)"
proof -
  from assms obtain code finalCode s f where
    ev: "evaluateIteration orch sv finalCode i = Inr (s, f)"
    and st': "st' = (let st1 = (st\<lparr>currentIteration := i\<rparr>)\<lparr>iterations := iterations st @
                      [\<lparr> it_iteration = i, it_code = finalCode,
                         it_score = s, it_feedback = f \<rparr>]\<rparr>;
             st2 = (if s > bestScore st1
                    then st1\<lparr>bestScore := s, bestIteration := i,
                             bestCode := Some finalCode\<rparr>
                    else st1)
         in if s \<ge> targetScore orch then st2
            else st2\<lparr>previousCode := Some finalCode,
                          previousFeedback := Some f\<rparr>)"
    and stop: "stop = (s \<ge> targetScore orch)"
    by (auto simp: runRound_def Let_def split: sum.splits prod.splits if_splits)
  from evaluateIteration_nonneg[OF ev] have "0 \<le> s" .
  with st' stop show ?thesis
    by (intro exI[of _ finalCode] exI[of _ s] exI[of _ f]) (simp add: Let_def)
qed


lemma sessionLoop_post:
  assumes "sessionLoop orch sv i st = Inr st'"
    and "1 \<le> i" and "i \<le> maxIterations orch"
    and "map it_iteration (iterations st) = [1..i - 1]"
    and "\<forall>r\<in>set (iterations st). it_score r < targetScore orch"
  shows "\<exists>n. i \<le> n \<and> n \<le> maxIterations orch \<and>
           map it_iteration (iterations st') = [1..n] \<and>
           (\<forall>r\<in>set (butlast (iterations st')). it_score r < targetScore orch) \<and>
           (n < maxIterations orch \<longrightarrow> it_score (last (iterations st')) \<ge> targetScore orch)"
  using assms
proof (induction orch sv i st rule: sessionLoop.induct)
  case (1 orch sv i st)
  from "1.prems"(1,3) obtain st1 stop where
    rr: "runRound orch sv i st = Inr (st1, stop)"
    and res: "(if stop then Inr st1 else sessionLoop orch sv (i + 1) st1) = Inr st'"
    by (subst (asm) sessionLoop.simps) (auto split: sum.splits)
  from runRound_Inr[OF rr] obtain code s f where
    its1: "iterations st1 = iterations st @
             [\<lparr> it_iteration = i, it_code = code, it_score = s, it_feedback = f \<rparr>]"
    and stop: "stop = (s \<ge> targetScore orch)"
    by blast
  from "1.prems"(2) have upt: "[1..i - 1] @ [i] = [1..i]"
    by (simp add: upto_rec2)
  have map1: "map it_iteration (iterations st1) = [1..i]"
    using its1 "1.prems"(4) upt by simp
  show ?case
  proof (cases stop)
    case True
    with res have "st' = st1" by simp
    with its1 map1 stop True "1.prems" show ?thesis
      by (intro exI[of _ i]) simp
  next
    case False
    with res have loop: "sessionLoop orch sv (i + 1) st1 = Inr st'" by simp
    from False stop have low: "s < targetScore orch" by simp
    have all1: "\<forall>r\<in>set (iterations st1). it_score r < targetScore orch"
      using its1 low "1.prems"(5) by auto
    show ?thesis
    proof (cases "i + 1 \<le> maxIterations orch")
      case True
      have "\<exists>n. i + 1 \<le> n \<and> n \<le> maxIterations orch \<and>
           map it_iteration (iterations st') = [1..n] \<and>
           (\<forall>r\<in>set (butlast (iterations st')). it_score r < targetScore orch) \<and>
           (n < maxIterations orch \<longrightarrow> it_score (last (iterations st')) \<ge> targetScore orch)"
        using "1.IH"[OF "1.prems"(3) rr refl False loop _ True] map1 all1 "1.prems"(2)
        by simp
      then obtain n where "i + 1 \<le> n" "n \<le> maxIterations orch"
        "map it_iteration (iterations st') = [1..n]"
        "\<forall>r\<in>set (butlast (iterations st')). it_score r < targetScore orch"
        "n < maxIterations orch \<longrightarrow> it_score (last (iterations st')) \<ge> targetScore orch"
        by blast
      then show ?thesis by (intro exI[of _ n]) simp
    next
      case nomore: False
      with loop have "st' = st1"
        by (subst (asm) sessionLoop.simps) simp
      moreover from nomore "1.prems"(3) have "i = maxIterations orch" by simp
      ultimately show ?thesis
        using its1 map1 "1.prems"(5)
        by (intro exI[of _ i]) simp
    qed
  qed
qed

lemma newOrchestrator_bounds:
  "newOrchestrator cfg = Inr orch \<Longrightarrow> 1 \<le> maxIterations orch \<and> maxIterations orch \<le> 7 \<and>
     1 \<le> targetScore orch \<and> targetScore orch \<le> 20"
  by (auto simp: newOrchestrator_def Let_def split: if_splits)

text \<open>
  Claim C1, as amended. In every session that returns a result, the number of recorded
  rounds never exceeds the configured maximum number of rounds, and it is smaller than
  that maximum if and only if some round before the last permitted one reached the
  target score.
\<close>

theorem round_count_bounded:
  assumes "newOrchestrator cfg = Inr orch" and "runSession orch sv = Inr st"
  shows "int (length (iterations st)) \<le> maxIterations orch \<and>
         (int (length (iterations st)) < maxIterations orch \<longleftrightarrow>
          (\<exists>r\<in>set (iterations st). it_iteration r < maxIterations orch \<and>
                                    it_score r \<ge> targetScore orch))"
proof -
  from newOrchestrator_bounds[OF assms(1)] have m: "1 \<le> maxIterations orch" by simp
  from assms(2) have loop: "sessionLoop orch sv 1 initialState = Inr st"
    by (auto simp: runSession_def split: sum.splits)
  from sessionLoop_post[OF loop _ m] obtain n where
    n: "1 \<le> n" "n \<le> maxIterations orch"
    and its: "map it_iteration (iterations st) = [1..n]"
    and low: "\<forall>r\<in>set (butlast (iterations st)). it_score r < targetScore orch"
    and hit: "n < maxIterations orch \<longrightarrow> it_score (last (iterations st)) \<ge> targetScore orch"
    by (auto simp: initialState_def)
  from length_of_upto[OF its] n have len: "int (length (iterations st)) = n" by simp
  with n have ne: "iterations st \<noteq> []" by auto
  have lastn: "it_iteration (last (iterations st)) = n"
  proof -
    have "it_iteration (last (iterations st)) = last (map it_iteration (iterations st))"
      using ne by (simp add: last_map)
    also have "\<dots> = n" using its n by (simp add: upto_rec2)
    finally show ?thesis .
  qed
  have split: "set (iterations st) = insert (last (iterations st)) (set (butlast (iterations st)))"
    using ne by (metis append_butlast_last_id list.simps(15) rotate1.simps(2) set_rotate1)
  show ?thesis
  proof (intro conjI iffI)
    show "int (length (iterations st)) \<le> maxIterations orch" using len n by simp
  next
    assume "int (length (iterations st)) < maxIterations orch"
    with len hit lastn ne show "\<exists>r\<in>set (iterations st). it_iteration r < maxIterations orch \<and>
                                    it_score r \<ge> targetScore orch"
      by (intro bexI[of _ "last (iterations st)"]) auto
  next
    assume "\<exists>r\<in>set (iterations st). it_iteration r < maxIterations orch \<and>
                                    it_score r \<ge> targetScore orch"
    then obtain r where r: "r \<in> set (iterations st)" "it_iteration r < maxIterations orch"
      "it_score r \<ge> targetScore orch" by blast
    with low split have "r = last (iterations st)" by auto
    with r lastn len show "int (length (iterations st)) < maxIterations orch" by simp
  qed
qed

text \<open>
  Witness for C1: with five rounds allowed and the target met in round 1, one round is
  recorded.
\<close>

theorem round_count_bounded_witness:
  "newOrchestrator fiveRoundConfig = Inr fiveRoundOrchestrator \<and>
   runSession fiveRoundOrchestrator alwaysMatchServices = Inr earlyMatchFinal \<and>
   int (length (iterations earlyMatchFinal)) \<le> maxIterations fiveRoundOrchestrator \<and>
   int (length (iterations earlyMatchFinal)) < maxIterations fiveRoundOrchestrator"
proof -
  have h1: "newOrchestrator fiveRoundConfig = Inr fiveRoundOrchestrator" by code_simp
  have h2: "runSession fiveRoundOrchestrator alwaysMatchServices = Inr earlyMatchFinal"
    by code_simp
  have "it_iteration (hd (iterations earlyMatchFinal)) < maxIterations fiveRoundOrchestrator \<and>
        it_score (hd (iterations earlyMatchFinal)) \<ge> targetScore fiveRoundOrchestrator \<and>
        hd (iterations earlyMatchFinal) \<in> set (iterations earlyMatchFinal)"
    by (simp add: earlyMatchFinal_def fiveRoundOrchestrator_def)
  with round_count_bounded[OF h1 h2] h1 h2 show ?thesis by blast
qed

text \<open>
  Counterexample to C1 as stated: with two rounds allowed and the target met in round 2,
  the session records as many rounds as the maximum although a round reached the target.
\<close>

theorem target_met_in_last_round:
  "newOrchestrator twoRoundConfig = Inr twoRoundOrchestrator \<and>
   runSession twoRoundOrchestrator lateMatchServices = Inr lateMatchFinal \<and>
   int (length (iterations lateMatchFinal)) = maxIterations twoRoundOrchestrator \<and>
   it_score (last (iterations lateMatchFinal)) \<ge> targetScore twoRoundOrchestrator"
  by code_simp

lemma bestTracked_nonempty:
  assumes "bestTracked st" and "iterations st \<noteq> []"
  shows "bestScore st = Max (set (map it_score (iterations st)))"
    and "map_option it_iteration (find (\<lambda>r. it_score r = bestScore st) (iterations st))
            = Some (bestIteration st)"
proof -
  from assms have "bestScore st = Max (set (map it_score (iterations st))) \<and>
      map_option it_iteration (find (\<lambda>r. it_score r = bestScore st) (iterations st))
            = Some (bestIteration st)"
    unfolding bestTracked_def by (auto split: if_splits)
  then show "bestScore st = Max (set (map it_score (iterations st)))"
    and "map_option it_iteration (find (\<lambda>r. it_score r = bestScore st) (iterations st))
            = Some (bestIteration st)" by blast+
qed

lemma runRound_bestTracked:
  assumes rr: "runRound orch sv i st = Inr (st', stop)"
    and inv: "bestTracked st" and first: "iterations st = [] \<longrightarrow> i = 1"
  shows "bestTracked st' \<and> iterations st' \<noteq> []"
proof -
  from runRound_Inr[OF rr] obtain code s f where
    s: "0 \<le> s"
    and its: "iterations st' = iterations st @
             [\<lparr> it_iteration = i, it_code = code, it_score = s, it_feedback = f \<rparr>]"
    and bs: "bestScore st' = (if s > bestScore st then s else bestScore st)"
    and bi: "bestIteration st' = (if s > bestScore st then i else bestIteration st)"
    by blast
  let ?new = "\<lparr> it_iteration = i, it_code = code, it_score = s, it_feedback = f \<rparr>"
  show ?thesis
  proof (cases "iterations st = []")
    case True
    with inv have b0: "bestScore st = 0" "bestIteration st = 1" by (simp_all add: bestTracked_def)
    from True first have "i = 1" by simp
    with True its bs bi b0 s show ?thesis
      by (auto simp: bestTracked_def)
  next
    case False
    from bestTracked_nonempty[OF inv False]
    have mx: "bestScore st = Max (set (map it_score (iterations st)))"
      and fd: "map_option it_iteration (find (\<lambda>r. it_score r = bestScore st) (iterations st))
            = Some (bestIteration st)" .
    have fin: "finite (set (map it_score (iterations st)))" "set (map it_score (iterations st)) \<noteq> {}"
      using False by simp_all
    have mx': "Max (set (map it_score (iterations st'))) = max s (bestScore st)"
      using its mx Max_insert[OF fin, of s] by simp
    show ?thesis
    proof (cases "s > bestScore st")
      case True
      have "\<forall>r\<in>set (iterations st). it_score r \<noteq> s"
      proof
        fix r assume "r \<in> set (iterations st)"
        then have "it_score r \<le> Max (set (map it_score (iterations st)))"
          by (intro Max_ge) auto
        with mx True show "it_score r \<noteq> s" by simp
      qed
      then have "find (\<lambda>r. it_score r = s) (iterations st) = None"
        by (simp add: find_None_iff)
      with True its bs bi mx' show ?thesis
        by (simp add: bestTracked_def find_append_cases)
    next
      case low: False
      from fd obtain r where "find (\<lambda>r. it_score r = bestScore st) (iterations st) = Some r"
        by auto
      with low its bs bi mx' fd show ?thesis
        by (simp add: bestTracked_def find_append_cases)
    qed
  qed
qed

lemma sessionLoop_bestTracked:
  assumes "sessionLoop orch sv i st = Inr st'"
    and "bestTracked st" and "iterations st = [] \<longrightarrow> i = 1"
  shows "bestTracked st'"
  using assms
proof (induction orch sv i st rule: sessionLoop.induct)
  case (1 orch sv i st)
  show ?case
  proof (cases "i \<le> maxIterations orch")
    case False
    with "1.prems"(1) have "st' = st" by (subst (asm) sessionLoop.simps) simp
    with "1.prems"(2) show ?thesis by simp
  next
    case True
    with "1.prems"(1) obtain st1 stop where
      rr: "runRound orch sv i st = Inr (st1, stop)"
      and res: "(if stop then Inr st1 else sessionLoop orch sv (i + 1) st1) = Inr st'"
      by (subst (asm) sessionLoop.simps) (auto split: sum.splits)
    from runRound_bestTracked[OF rr "1.prems"(2,3)]
    have t1: "bestTracked st1" and ne: "iterations st1 \<noteq> []" by simp_all
    show ?thesis
    proof (cases stop)
      case True
      with res t1 show ?thesis by simp
    next
      case False
      with res have "sessionLoop orch sv (i + 1) st1 = Inr st'" by simp
      from "1.IH"[OF True rr refl False this t1] ne show ?thesis by simp
    qed
  qed
qed

text \<open>
  Claim C2. The bookkeeping property holds before the first round and every round
  preserves it: after a round the tracked best score is the maximum of all recorded
  scores and the tracked best iteration is the earliest round with that score. In
  particular this holds for the state with which a session ends.
\<close>

theorem best_is_earliest_maximum:
  "(runRound orch sv i st = Inr (st', stop) \<and> bestTracked st \<and> (iterations st = [] \<longrightarrow> i = 1)
      \<longrightarrow> iterations st' \<noteq> [] \<and>
          bestScore st' = Max (set (map it_score (iterations st'))) \<and>
          map_option it_iteration (find (\<lambda>r. it_score r = bestScore st') (iterations st'))
            = Some (bestIteration st')) \<and>
   (newOrchestrator cfg = Inr orch' \<and> runSession orch' sv' = Inr fin
      \<longrightarrow> iterations fin \<noteq> [] \<and>
          bestScore fin = Max (set (map it_score (iterations fin))) \<and>
          map_option it_iteration (find (\<lambda>r. it_score r = bestScore fin) (iterations fin))
            = Some (bestIteration fin))"
proof (intro conjI impI)
  assume a: "runRound orch sv i st = Inr (st', stop) \<and> bestTracked st \<and> (iterations st = [] \<longrightarrow> i = 1)"
  then have "bestTracked st' \<and> iterations st' \<noteq> []"
    using runRound_bestTracked by blast
  then show "iterations st' \<noteq> []"
    and "bestScore st' = Max (set (map it_score (iterations st')))"
    and "map_option it_iteration (find (\<lambda>r. it_score r = bestScore st') (iterations st'))
            = Some (bestIteration st')"
    using bestTracked_nonempty[of st'] by blast+
next
  assume b: "newOrchestrator cfg = Inr orch' \<and> runSession orch' sv' = Inr fin"
  then have m: "1 \<le> maxIterations orch'" using newOrchestrator_bounds by blast
  from b have loop: "sessionLoop orch' sv' 1 initialState = Inr fin"
    by (auto simp: runSession_def split: sum.splits)
  have t: "bestTracked fin"
    by (rule sessionLoop_bestTracked[OF loop]) (simp_all add: bestTracked_def initialState_def)
  from sessionLoop_post[OF loop _ m] obtain n where "1 \<le> n"
    "map it_iteration (iterations fin) = [1..n]"
    by (auto simp: initialState_def)
  then have ne: "iterations fin \<noteq> []" by (auto simp: upto.simps)
  from t ne show "iterations fin \<noteq> []"
    and "bestScore fin = Max (set (map it_score (iterations fin)))"
    and "map_option it_iteration (find (\<lambda>r. it_score r = bestScore fin) (iterations fin))
            = Some (bestIteration fin)"
    using bestTracked_nonempty[of fin] by blast+
qed

text \<open>Witness for C2: the two-round session with scores 0 and 10.\<close>

theorem best_is_earliest_maximum_witness:
  "runRound twoRoundOrchestrator lateMatchServices 1 initialState = Inr (afterFirstRound, False) \<and>
   bestTracked initialState \<and>
   bestScore afterFirstRound = Max (set (map it_score (iterations afterFirstRound))) \<and>
   newOrchestrator twoRoundConfig = Inr twoRoundOrchestrator \<and>
   runSession twoRoundOrchestrator lateMatchServices = Inr lateMatchFinal \<and>
   bestScore lateMatchFinal = Max (set (map it_score (iterations lateMatchFinal))) \<and>
   map_option it_iteration
     (find (\<lambda>r. it_score r = bestScore lateMatchFinal) (iterations lateMatchFinal)) =
     Some (bestIteration lateMatchFinal)"
proof -
  have h1: "runRound twoRoundOrchestrator lateMatchServices 1 initialState = Inr (afterFirstRound, False)"
    by code_simp
  have h2: "bestTracked initialState" by (simp add: bestTracked_def initialState_def)
  have h3: "iterations initialState = [] \<longrightarrow> (1::int) = 1" by simp
  have h4: "newOrchestrator twoRoundConfig = Inr twoRoundOrchestrator" by code_simp
  have h5: "runSession twoRoundOrchestrator lateMatchServices = Inr lateMatchFinal" by code_simp
  from best_is_earliest_maximum[of twoRoundOrchestrator lateMatchServices 1 initialState
      afterFirstRound False twoRoundConfig twoRoundOrchestrator lateMatchServices lateMatchFinal]
    h1 h2 h3 h4 h5 show ?thesis by blast
qed

text \<open>
  Claim C7, as amended. A failure of the code-generation call in any round, the first
  or a later one, ends the session with that error: the loop returns the error from the
  round in which generation fails, and a round that completes without reaching the
  target hands over to exactly that remaining loop.
\<close>

theorem generation_failure_is_fatal:
  "(i \<le> maxIterations orch \<and> generateCode sv (previousCode st) (previousFeedback st) i = Inl e
      \<longrightarrow> sessionLoop orch sv i st = Inl e) \<and>
   (j \<le> maxIterations orch \<and> runRound orch sv j st0 = Inr (st1, False)
      \<longrightarrow> sessionLoop orch sv j st0 = sessionLoop orch sv (j + 1) st1)"
proof (intro conjI impI)
  assume "i \<le> maxIterations orch \<and> generateCode sv (previousCode st) (previousFeedback st) i = Inl e"
  then show "sessionLoop orch sv i st = Inl e"
    by (subst sessionLoop.simps) (simp add: runRound_def)
next
  assume "j \<le> maxIterations orch \<and> runRound orch sv j st0 = Inr (st1, False)"
  then show "sessionLoop orch sv j st0 = sessionLoop orch sv (j + 1) st1"
    by (subst sessionLoop.simps) simp
qed

text \<open>
  Witness for C7: five rounds allowed, round 1 completes with score 0, the generation
  call of round 2 fails.
\<close>

theorem generation_failure_is_fatal_witness:
  "2 \<le> maxIterations fiveRoundOrchestrator \<and>
   generateCode improveFailsServices (previousCode afterFirstRound)
     (previousFeedback afterFirstRound) 2 = Inl (Error ''Gemini API error: 503 Service Unavailable'') \<and>
   sessionLoop fiveRoundOrchestrator improveFailsServices 2 afterFirstRound =
     Inl (Error ''Gemini API error: 503 Service Unavailable'') \<and>
   runRound fiveRoundOrchestrator improveFailsServices 1 initialState = Inr (afterFirstRound, False) \<and>
   sessionLoop fiveRoundOrchestrator improveFailsServices 1 initialState =
     sessionLoop fiveRoundOrchestrator improveFailsServices (1 + 1) afterFirstRound"
proof -
  have h1: "2 \<le> maxIterations fiveRoundOrchestrator" by (simp add: fiveRoundOrchestrator_def)
  have h2: "generateCode improveFailsServices (previousCode afterFirstRound)
     (previousFeedback afterFirstRound) 2 = Inl (Error ''Gemini API error: 503 Service Unavailable'')"
    by code_simp
  have h3: "1 \<le> maxIterations fiveRoundOrchestrator" by (simp add: fiveRoundOrchestrator_def)
  have h4: "runRound fiveRoundOrchestrator improveFailsServices 1 initialState = Inr (afterFirstRound, False)"
    by code_simp
  from generation_failure_is_fatal[of 2 fiveRoundOrchestrator improveFailsServices afterFirstRound
      "Error ''Gemini API error: 503 Service Unavailable''" 1 initialState afterFirstRound]
    h1 h2 h3 h4 show ?thesis by blast
qed

text \<open>
  Counterexample to C7 as stated: in that session the failure of the generation call in
  round 2 is the result of the whole session, although four rounds remain.
\<close>

theorem later_generation_failure_fails_session:
  "runRound fiveRoundOrchestrator improveFailsServices 1 initialState = Inr (afterFirstRound, False) \<and>
   generateCode improveFailsServices (previousCode afterFirstRound)
     (previousFeedback afterFirstRound) 2 = Inl (Error ''Gemini API error: 503 Service Unavailable'') \<and>
   runSession fiveRoundOrchestrator improveFailsServices =
     Inl (Error ''Gemini API error: 503 Service Unavailable'')"
  by code_simp

section \<open>Properties of the error repair of the pixel feedback loop\<close>






end
